theory Spec2Isabelle
  imports Complex_Main
begin

section \<open>Errors and rank-2 tensors\<close>

text \<open>
  The program is \<^verbatim>\<open>pilco/models/pilco.py\<close>: the class \<^verbatim>\<open>PILCO\<close> with its
  constructor, \<^verbatim>\<open>propagate\<close>, \<^verbatim>\<open>predict\<close>, \<^verbatim>\<open>compute_return\<close> and
  \<^verbatim>\<open>restart_controller\<close>.

  Every array the class handles is a matrix (a rank-2 array): a shape and the rows.
  The scalars are real numbers, the idealisation of the floating-point type
  \<^verbatim>\<open>float_type\<close>: rounding, infinities and NaN are not part of the model.
  A Python exception is a value of type \<open>error\<close>; a computation that may raise
  returns \<open>error + 'a\<close>.
\<close>

datatype error = ShapeError | ValueError | AttributeError

definition bind_e :: "error + 'a \<Rightarrow> ('a \<Rightarrow> error + 'b) \<Rightarrow> error + 'b" where
  "bind_e x f = (case x of Inl e \<Rightarrow> Inl e | Inr v \<Rightarrow> f v)"

datatype tensor = Tensor (nrows: nat) (ncols: nat) (rows: "real list list")

definition shape :: "tensor \<Rightarrow> nat \<times> nat" where
  "shape t = (nrows t, ncols t)"

definition well_formed :: "tensor \<Rightarrow> bool" where
  "well_formed t \<longleftrightarrow>
     length (rows t) = nrows t \<and> list_all (\<lambda>r. length r = ncols t) (rows t)"

definition has_shape :: "nat \<Rightarrow> nat \<Rightarrow> tensor \<Rightarrow> bool" where
  "has_shape r c t \<longleftrightarrow> nrows t = r \<and> ncols t = c \<and> well_formed t"

definition entry :: "tensor \<Rightarrow> nat \<Rightarrow> nat \<Rightarrow> real" where
  "entry t i j = rows t ! i ! j"

definition col :: "tensor \<Rightarrow> nat \<Rightarrow> real list" where
  "col t j = map (\<lambda>r. r ! j) (rows t)"

definition dot :: "real list \<Rightarrow> real list \<Rightarrow> real" where
  "dot xs ys = sum_list (map2 (*) xs ys)"

text \<open>\<^verbatim>\<open>tf.concat([A, B], axis=0)\<close> stacks the rows, \<^verbatim>\<open>axis=1\<close> joins them side
  by side; the other dimension has to agree.\<close>

definition tf_concat0 :: "tensor \<Rightarrow> tensor \<Rightarrow> error + tensor" where
  "tf_concat0 A B =
     (if ncols A = ncols B
      then Inr (Tensor (nrows A + nrows B) (ncols A) (rows A @ rows B))
      else Inl ShapeError)"

definition tf_concat1 :: "tensor \<Rightarrow> tensor \<Rightarrow> error + tensor" where
  "tf_concat1 A B =
     (if nrows A = nrows B
      then Inr (Tensor (nrows A) (ncols A + ncols B) (map2 (@) (rows A) (rows B)))
      else Inl ShapeError)"

definition tf_transpose :: "tensor \<Rightarrow> tensor" where
  "tf_transpose A = Tensor (ncols A) (nrows A) (map (col A) [0..<ncols A])"

text \<open>\<^verbatim>\<open>A @ B\<close> and \<^verbatim>\<open>tf.matmul(A, B, transpose_a, transpose_b)\<close>.\<close>

definition tf_matmul :: "tensor \<Rightarrow> tensor \<Rightarrow> error + tensor" where
  "tf_matmul A B =
     (if ncols A = nrows B
      then Inr (Tensor (nrows A) (ncols B)
                 (map (\<lambda>r. map (\<lambda>j. dot r (col B j)) [0..<ncols B]) (rows A)))
      else Inl ShapeError)"

definition tf_matmul_t :: "tensor \<Rightarrow> tensor \<Rightarrow> bool \<Rightarrow> bool \<Rightarrow> error + tensor" where
  "tf_matmul_t A B transpose_a transpose_b =
     tf_matmul (if transpose_a then tf_transpose A else A)
               (if transpose_b then tf_transpose B else B)"

text \<open>Addition broadcasts as TensorFlow and NumPy do: two extents are compatible when
  they are equal or one of them is 1, and the operand of extent 1 is repeated.\<close>

definition bdim :: "nat \<Rightarrow> nat \<Rightarrow> nat option" where
  "bdim a b = (if a = b then Some a else if a = 1 then Some b
               else if b = 1 then Some a else None)"

definition bidx :: "nat \<Rightarrow> nat \<Rightarrow> nat" where
  "bidx extent i = (if extent = 1 then 0 else i)"

definition from_entries :: "nat \<Rightarrow> nat \<Rightarrow> (nat \<Rightarrow> nat \<Rightarrow> real) \<Rightarrow> tensor" where
  "from_entries r c f = Tensor r c (map (\<lambda>i. map (f i) [0..<c]) [0..<r])"

definition tf_add :: "tensor \<Rightarrow> tensor \<Rightarrow> error + tensor" where
  "tf_add A B =
     (case (bdim (nrows A) (nrows B), bdim (ncols A) (ncols B)) of
        (Some r, Some c) \<Rightarrow>
          Inr (from_entries r c
                (\<lambda>i j. entry A (bidx (nrows A) i) (bidx (ncols A) j)
                       + entry B (bidx (nrows B) i) (bidx (ncols B) j)))
      | _ \<Rightarrow> Inl ShapeError)"

text \<open>\<^verbatim>\<open>t.set_shape([r, c])\<close> raises when the shape of \<open>t\<close> is not the given one.\<close>

definition set_shape :: "tensor \<Rightarrow> nat \<Rightarrow> nat \<Rightarrow> error + tensor" where
  "set_shape t r c = (if nrows t = r \<and> ncols t = c then Inr t else Inl ShapeError)"

text \<open>\<^verbatim>\<open>a * t\<close> and \<^verbatim>\<open>t + a\<close> for a scalar \<open>a\<close>, and the slice
  \<^verbatim>\<open>t[r0:r1, c0:c1]\<close> with bounds that are not negative: NumPy cuts a slice off at the
  end of the array.\<close>

definition np_scale :: "real \<Rightarrow> tensor \<Rightarrow> tensor" where
  "np_scale a t = Tensor (nrows t) (ncols t) (map (map (\<lambda>x. a * x)) (rows t))"

definition np_add_scalar :: "tensor \<Rightarrow> real \<Rightarrow> tensor" where
  "np_add_scalar t a = Tensor (nrows t) (ncols t) (map (map (\<lambda>x. x + a)) (rows t))"

definition np_slice :: "tensor \<Rightarrow> nat \<Rightarrow> nat \<Rightarrow> nat \<Rightarrow> nat \<Rightarrow> tensor" where
  "np_slice t r0 r1 c0 c1 =
     Tensor (min r1 (nrows t) - min r0 (nrows t)) (min c1 (ncols t) - min c0 (ncols t))
       (map (\<lambda>r. take (c1 - c0) (drop c0 r)) (take (r1 - r0) (drop r0 (rows t))))"

text \<open>\<^verbatim>\<open>np.ones(n)\<close> is a vector (a rank-1 array), \<^verbatim>\<open>v * a\<close> scales it and
  \<^verbatim>\<open>np.diag(v)\<close> is the square matrix with \<open>v\<close> on its diagonal.\<close>

definition np_ones :: "nat \<Rightarrow> real list" where
  "np_ones n = replicate n 1"

definition np_vec_scale :: "real list \<Rightarrow> real \<Rightarrow> real list" where
  "np_vec_scale v a = map (\<lambda>x. x * a) v"

definition np_diag :: "real list \<Rightarrow> tensor" where
  "np_diag v =
     Tensor (length v) (length v)
       (map (\<lambda>i. (replicate (length v) 0)[i := v ! i]) [0..<length v])"

subsection \<open>Matrix notions used to state the properties\<close>

text \<open>The sum and the product of matrices, the block matrix of four blocks, the block
  row of two, the first rows of a matrix, the identity matrix and symmetry, each given
  by its entries.\<close>

definition mat_add :: "tensor \<Rightarrow> tensor \<Rightarrow> tensor" where
  "mat_add A B = from_entries (nrows A) (ncols A) (\<lambda>i j. entry A i j + entry B i j)"

definition mat_mul :: "tensor \<Rightarrow> tensor \<Rightarrow> tensor" where
  "mat_mul A B =
     from_entries (nrows A) (ncols B)
       (\<lambda>i j. sum_list (map (\<lambda>q. entry A i q * entry B q j) [0..<ncols A]))"

definition mat_transpose :: "tensor \<Rightarrow> tensor" where
  "mat_transpose A = from_entries (ncols A) (nrows A) (\<lambda>i j. entry A j i)"

definition block_row :: "tensor \<Rightarrow> tensor \<Rightarrow> tensor" where
  "block_row A B =
     from_entries (nrows A) (ncols A + ncols B)
       (\<lambda>i j. if j < ncols A then entry A i j else entry B i (j - ncols A))"

definition block_matrix :: "tensor \<Rightarrow> tensor \<Rightarrow> tensor \<Rightarrow> tensor \<Rightarrow> tensor" where
  "block_matrix A B C D =
     from_entries (nrows A + nrows C) (ncols A + ncols B)
       (\<lambda>i j. if i < nrows A
              then (if j < ncols A then entry A i j else entry B i (j - ncols A))
              else (if j < ncols A then entry C (i - nrows A) j
                    else entry D (i - nrows A) (j - ncols A)))"

definition first_rows :: "nat \<Rightarrow> tensor \<Rightarrow> tensor" where
  "first_rows n A = from_entries n (ncols A) (\<lambda>i j. entry A i j)"

definition identity_matrix :: "nat \<Rightarrow> tensor" where
  "identity_matrix n = from_entries n n (\<lambda>i j. if i = j then 1 else 0)"

definition symmetric :: "tensor \<Rightarrow> bool" where
  "symmetric A \<longleftrightarrow> mat_transpose A = A"

section \<open>The PILCO object and its collaborators\<close>

text \<open>
  The dynamics model (\<^verbatim>\<open>self.mgpr\<close>), the policy (\<^verbatim>\<open>self.controller\<close>) and the
  reward (\<^verbatim>\<open>self.reward\<close>) are objects of classes defined outside this file. Their
  types are parameters, and what their methods compute is given by a record of functions.
\<close>

datatype optimizer = ScipyOptimizer

record ('g, 'c, 'r) pilco =
  mgpr :: 'g
  state_dim :: nat
  control_dim :: int
  horizon :: int
  controller :: 'c
  reward :: 'r
  m_init :: tensor
  S_init :: tensor
  optimizer :: "optimizer option"

record ('g, 'c, 'r) methods =
  predict_on_noisy_inputs :: "'g \<Rightarrow> tensor \<Rightarrow> tensor \<Rightarrow> tensor \<times> tensor \<times> tensor"
  compute_action :: "'c \<Rightarrow> tensor \<Rightarrow> tensor \<Rightarrow> tensor \<times> tensor \<times> tensor"
  compute_reward :: "'r \<Rightarrow> tensor \<Rightarrow> tensor \<Rightarrow> tensor \<times> tensor"

section \<open>propagate\<close>

text \<open>Lines 118 to 123 of \<^verbatim>\<open>propagate\<close>: the policy is queried and the joint
  belief over state and action is assembled. The result is \<open>(m, s, s1)\<close>. The product
  \<^verbatim>\<open>s_x@c_xu\<close>, which the source writes in both block rows, is \<open>sc\<close>.\<close>

definition joint_input ::
  "('g, 'c, 'r) methods \<Rightarrow> ('g, 'c, 'r) pilco \<Rightarrow> tensor \<Rightarrow> tensor
     \<Rightarrow> error + (tensor \<times> tensor \<times> tensor)" where
  "joint_input I self m_x s_x =
     (case compute_action I (controller self) m_x s_x of (m_u, s_u, c_xu) \<Rightarrow>
        bind_e (tf_concat1 m_x m_u) (\<lambda>m.
        bind_e (tf_matmul s_x c_xu) (\<lambda>sc.
        bind_e (tf_concat1 s_x sc) (\<lambda>s1.
        bind_e (tf_concat1 (tf_transpose sc) s_u) (\<lambda>s2.
        bind_e (tf_concat0 s1 s2) (\<lambda>s.
        Inr (m, s, s1)))))))"

definition propagate ::
  "('g, 'c, 'r) methods \<Rightarrow> ('g, 'c, 'r) pilco \<Rightarrow> tensor \<Rightarrow> tensor
     \<Rightarrow> error + (tensor \<times> tensor)" where
  "propagate I self m_x s_x =
     bind_e (joint_input I self m_x s_x) (\<lambda>(m, s, s1).
       case predict_on_noisy_inputs I (mgpr self) m s of (M_dx, S_dx, C_dx) \<Rightarrow>
         bind_e (tf_add M_dx m_x) (\<lambda>M_x.
         bind_e (tf_add S_dx s_x) (\<lambda>a1.
         bind_e (tf_matmul s1 C_dx) (\<lambda>t1.
         bind_e (tf_add a1 t1) (\<lambda>a2.
         bind_e (tf_matmul_t C_dx s1 True True) (\<lambda>t2.
         bind_e (tf_add a2 t2) (\<lambda>S_x.
         bind_e (set_shape M_x 1 (state_dim self)) (\<lambda>M_x.
         bind_e (set_shape S_x (state_dim self) (state_dim self)) (\<lambda>S_x.
         Inr (M_x, S_x))))))))))"

section \<open>predict\<close>

text \<open>
  The \<^verbatim>\<open>tf.while_loop\<close> of \<^verbatim>\<open>predict\<close>, as the values it computes when it runs.
  The loop variables are \<open>(j, m_x, s_x, reward)\<close>. The body is the tuple of the source:
  \<^verbatim>\<open>propagate(m_x, s_x)\<close> and \<^verbatim>\<open>compute_reward(m_x, s_x)\<close> both receive the loop
  variables the iteration was entered with. A loop variable whose shape changes in an
  iteration is an error of the while-loop.

  Two things the source does are outside this loop, and the properties of \<^verbatim>\<open>predict\<close>
  are stated where they make no difference. The counter \<open>j\<close> and the bound it is
  compared with are 32-bit integers in the source and unbounded ones here: the
  properties are stated for horizons inside the 32-bit range, where the bound is the
  horizon itself and the counter does not wrap. And \<^verbatim>\<open>tf.while_loop\<close> builds the body
  once whatever the horizon is, so a shape error of the body is raised also when no
  iteration is run: the properties are stated for beliefs of the shapes of a state belief
  and collaborators that return the shapes of their contracts, for which the body has no
  shape error.
\<close>

function predict_loop ::
  "('g, 'c, 'r) methods \<Rightarrow> ('g, 'c, 'r) pilco \<Rightarrow> int \<Rightarrow> int \<Rightarrow> tensor \<Rightarrow> tensor \<Rightarrow> tensor
     \<Rightarrow> error + (tensor \<times> tensor \<times> tensor)" where
  "predict_loop I self n j m_x s_x rew =
     (if j < n then
        (case propagate I self m_x s_x of
           Inl e \<Rightarrow> Inl e
         | Inr (M_x, S_x) \<Rightarrow>
             (case tf_add rew (fst (compute_reward I (reward self) m_x s_x)) of
                Inl e \<Rightarrow> Inl e
              | Inr rew' \<Rightarrow>
                  if shape M_x = shape m_x \<and> shape S_x = shape s_x \<and> shape rew' = shape rew
                  then predict_loop I self n (j + 1) M_x S_x rew'
                  else Inl ShapeError))
      else Inr (m_x, s_x, rew))"
  by pat_completeness auto
termination
  by (relation "measure (\<lambda>(I, self, n, j, m_x, s_x, rew). nat (n - j))") auto

definition predict ::
  "('g, 'c, 'r) methods \<Rightarrow> ('g, 'c, 'r) pilco \<Rightarrow> tensor \<Rightarrow> tensor \<Rightarrow> int
     \<Rightarrow> error + (tensor \<times> tensor \<times> tensor)" where
  "predict I self m_x s_x n = predict_loop I self n 0 m_x s_x (Tensor 1 1 [[0]])"

text \<open>The belief after \<open>k\<close> propagation steps and the expected reward of a belief:
  the notions the properties of the rollout are stated with.\<close>

fun belief_after ::
  "('g, 'c, 'r) methods \<Rightarrow> ('g, 'c, 'r) pilco \<Rightarrow> tensor \<times> tensor \<Rightarrow> nat
     \<Rightarrow> error + (tensor \<times> tensor)" where
  "belief_after I self b 0 = Inr b"
| "belief_after I self b (Suc k) =
     bind_e (belief_after I self b k) (\<lambda>(m, s). propagate I self m s)"

definition expected_reward ::
  "('g, 'c, 'r) methods \<Rightarrow> ('g, 'c, 'r) pilco \<Rightarrow> tensor \<times> tensor \<Rightarrow> real" where
  "expected_reward I self b = entry (fst (compute_reward I (reward self) (fst b) (snd b))) 0 0"

definition reward_at ::
  "('g, 'c, 'r) methods \<Rightarrow> ('g, 'c, 'r) pilco \<Rightarrow> tensor \<times> tensor \<Rightarrow> nat \<Rightarrow> real" where
  "reward_at I self b k =
     (case belief_after I self b k of Inr b' \<Rightarrow> expected_reward I self b' | Inl e \<Rightarrow> 0)"

text \<open>The shapes the collaborators return, as their contracts give them, for a state of
  dimension \<open>state_dim self\<close> and an action of dimension \<open>k\<close>.\<close>

definition respects_contract ::
  "('g, 'c, 'r) methods \<Rightarrow> ('g, 'c, 'r) pilco \<Rightarrow> nat \<Rightarrow> bool" where
  "respects_contract I self k \<longleftrightarrow>
     (\<forall>m s. has_shape 1 k (fst (compute_action I (controller self) m s))
          \<and> has_shape k k (fst (snd (compute_action I (controller self) m s)))
          \<and> has_shape (state_dim self) k (snd (snd (compute_action I (controller self) m s))))
   \<and> (\<forall>m s. has_shape 1 (state_dim self) (fst (predict_on_noisy_inputs I (mgpr self) m s))
          \<and> has_shape (state_dim self) (state_dim self)
               (fst (snd (predict_on_noisy_inputs I (mgpr self) m s)))
          \<and> has_shape (state_dim self + k) (state_dim self)
               (snd (snd (predict_on_noisy_inputs I (mgpr self) m s))))
   \<and> (\<forall>m s. has_shape 1 1 (fst (compute_reward I (reward self) m s)))"

section \<open>compute_return\<close>

text \<open>\<^verbatim>\<open>compute_return\<close> evaluates \<^verbatim>\<open>_build_likelihood\<close>: the third component of
  \<^verbatim>\<open>predict(self.m_init, self.S_init, self.horizon)\<close>.\<close>

definition compute_return ::
  "('g, 'c, 'r) methods \<Rightarrow> ('g, 'c, 'r) pilco \<Rightarrow> error + tensor" where
  "compute_return I self =
     bind_e (predict I self (m_init self) (S_init self) (horizon self))
       (\<lambda>(m_x, s_x, rew). Inr rew)"

section \<open>The constructor\<close>

text \<open>
  The constructors of the collaborators are defined outside this file and may raise;
  they are parameters. \<^verbatim>\<open>if not num_induced_points\<close> holds for \<^verbatim>\<open>None\<close> and for 0.
\<close>

record ('g, 'c, 'r) factories =
  MGPR :: "tensor \<Rightarrow> tensor \<Rightarrow> error + 'g"
  SMGPR :: "tensor \<Rightarrow> tensor \<Rightarrow> int \<Rightarrow> error + 'g"
  LinearController :: "nat \<Rightarrow> int \<Rightarrow> error + 'c"
  ExponentialReward :: "nat \<Rightarrow> error + 'r"

definition pilco_init ::
  "('g, 'c, 'r) factories \<Rightarrow> tensor \<Rightarrow> tensor \<Rightarrow> int option \<Rightarrow> int \<Rightarrow> 'c option \<Rightarrow> 'r option
     \<Rightarrow> tensor option \<Rightarrow> tensor option \<Rightarrow> error + ('g, 'c, 'r) pilco" where
  "pilco_init F X Y num_induced_points horizon0 controller0 reward0 m_init0 S_init0 =
     bind_e (case num_induced_points of
               None \<Rightarrow> MGPR F X Y
             | Some n \<Rightarrow> if n = 0 then MGPR F X Y else SMGPR F X Y n) (\<lambda>g.
     let sd = ncols Y; cd = int (ncols X) - int (ncols Y) in
     bind_e (case controller0 of
               None \<Rightarrow> LinearController F sd cd
             | Some c \<Rightarrow> Inr c) (\<lambda>c.
     bind_e (case reward0 of
               None \<Rightarrow> ExponentialReward F sd
             | Some r \<Rightarrow> Inr r) (\<lambda>r.
     let (mi, si) =
           (case (m_init0, S_init0) of
              (Some m, Some S) \<Rightarrow> (m, S)
            | _ \<Rightarrow> (np_slice X 0 1 0 sd, np_diag (np_vec_scale (np_ones sd) 0.1)))
     in Inr \<lparr>mgpr = g, state_dim = sd, control_dim = cd, horizon = horizon0,
             controller = c, reward = r, m_init = mi, S_init = si,
             optimizer = None\<rparr>)))"

section \<open>restart_controller\<close>

text \<open>
  A sub-model \<open>m\<close> of the policy has the parameters \<^verbatim>\<open>m.X\<close>, \<^verbatim>\<open>m.Y\<close> and
  \<^verbatim>\<open>m.kern.lengthscales\<close> (a vector, kept as a matrix of one row). The policy is the list
  \<^verbatim>\<open>self.controller.models\<close> and whatever else it holds.
\<close>

record gp_model =
  gpX :: tensor
  gpY :: tensor
  lengthscales :: tensor

record 'k policy =
  models :: "gp_model list"
  policy_rest :: 'k

text \<open>
  The random generator is the sequence of the values it will return. \<^verbatim>\<open>np.random.rand()\<close>
  takes the next one, \<^verbatim>\<open>np.random.normal(size=(r, c))\<close> the next \<open>r * c\<close>, row by row.
\<close>

type_synonym rng = "nat \<Rightarrow> real"

definition np_random_rand :: "rng \<Rightarrow> real \<times> rng" where
  "np_random_rand g = (g 0, \<lambda>i. g (i + 1))"

definition np_random_normal :: "rng \<Rightarrow> nat \<times> nat \<Rightarrow> tensor \<times> rng" where
  "np_random_normal g sz =
     (case sz of (r, c) \<Rightarrow> (from_entries r c (\<lambda>i j. g (i * c + j)), \<lambda>i. g (i + r * c)))"

text \<open>\<^verbatim>\<open>p.assign(v)\<close> on a parameter stores an array of the parameter's shape.
  NumPy's \<^verbatim>\<open>+\<close> on arrays broadcasts as \<open>tf_add\<close> does.\<close>

definition param_assign :: "tensor \<Rightarrow> tensor \<Rightarrow> error + tensor" where
  "param_assign old v = (if shape v = shape old then Inr v else Inl ShapeError)"

text \<open>The body of \<^verbatim>\<open>for m in self.controller.models\<close>, lines 140 to 155.
  A parameter is one array: \<^verbatim>\<open>m.X.value\<close> is read as the value the parameter has at that
  moment, and a copy of the value that gpflow may keep beside it is not kept apart.\<close>

definition perturb_model ::
  "real \<Rightarrow> tensor \<Rightarrow> gp_model \<Rightarrow> rng \<Rightarrow> error + (gp_model \<times> rng)" where
  "perturb_model select m_init0 m g =
     (if select < 0.33 then
        (case np_random_normal g (shape (gpX m)) of (n1, g1) \<Rightarrow>
         bind_e (param_assign (gpX m) (np_scale 0.1 n1)) (\<lambda>x.
         case np_random_normal g1 (shape (gpY m)) of (n2, g2) \<Rightarrow>
         bind_e (param_assign (gpY m) (np_scale 0.1 n2)) (\<lambda>y.
         case np_random_normal g2 (shape (lengthscales m)) of (n3, g3) \<Rightarrow>
         bind_e (param_assign (lengthscales m) (np_add_scalar (np_scale 0.1 n3) 1)) (\<lambda>l.
         Inr (\<lparr>gpX = x, gpY = y, lengthscales = l\<rparr>, g3)))))
      else if select < 0.67 then
        (case np_random_normal g (shape (gpX m)) of (n1, g1) \<Rightarrow>
         bind_e (tf_add (np_scale 0.1 n1) m_init0) (\<lambda>v.
         bind_e (param_assign (gpX m) v) (\<lambda>x.
         case np_random_normal g1 (shape (gpY m)) of (n2, g2) \<Rightarrow>
         bind_e (param_assign (gpY m) (np_scale 0.1 n2)) (\<lambda>y.
         case np_random_normal g2 (shape (lengthscales m)) of (n3, g3) \<Rightarrow>
         bind_e (param_assign (lengthscales m) (np_add_scalar (np_scale 0.1 n3) 1)) (\<lambda>l.
         Inr (\<lparr>gpX = x, gpY = y, lengthscales = l\<rparr>, g3))))))
      else
        (case np_random_normal g (shape (gpX m)) of (n1, g1) \<Rightarrow>
         bind_e (tf_add (np_scale 0.1 n1) (gpX m)) (\<lambda>v.
         bind_e (param_assign (gpX m) v) (\<lambda>x.
         case np_random_normal g1 (shape (gpY m)) of (n2, g2) \<Rightarrow>
         bind_e (tf_add (np_scale 0.1 n2) (gpY m)) (\<lambda>v.
         bind_e (param_assign (gpY m) v) (\<lambda>y.
         case np_random_normal g2 (shape (lengthscales m)) of (n3, g3) \<Rightarrow>
         bind_e (tf_add (np_scale 0.1 n3) (lengthscales m)) (\<lambda>v.
         bind_e (param_assign (lengthscales m) v) (\<lambda>l.
         Inr (\<lparr>gpX = x, gpY = y, lengthscales = l\<rparr>, g3)))))))))"

fun perturb_models ::
  "real \<Rightarrow> tensor \<Rightarrow> gp_model list \<Rightarrow> rng \<Rightarrow> error + (gp_model list \<times> rng)" where
  "perturb_models select m_init0 [] g = Inr ([], g)"
| "perturb_models select m_init0 (m # ms) g =
     bind_e (perturb_model select m_init0 m g) (\<lambda>(m', g').
     bind_e (perturb_models select m_init0 ms g') (\<lambda>(ms', g'').
     Inr (m' # ms', g'')))"

text \<open>Lines 138 to 155: the draw of \<^verbatim>\<open>select\<close> and the loop over the sub-models.\<close>

definition perturb ::
  "('g, 'k policy, 'r) pilco \<Rightarrow> rng \<Rightarrow> error + (('g, 'k policy, 'r) pilco \<times> rng)" where
  "perturb self g =
     (case np_random_rand g of (select, g1) \<Rightarrow>
        bind_e (perturb_models select (m_init self) (models (controller self)) g1)
          (\<lambda>(ms, g2). Inr (self\<lparr>controller := (controller self)\<lparr>models := ms\<rparr>\<rparr>, g2)))"

text \<open>
  \<^verbatim>\<open>read_values\<close> returns the values of all parameters of the model, \<^verbatim>\<open>assign\<close>
  stores such values back. The optimizer is an external routine: \<open>minimize\<close> gives the
  parameter values it ends with. \<^verbatim>\<open>self.optimizer._optimizer\<close> raises when
  \<^verbatim>\<open>self.optimizer\<close> is \<^verbatim>\<open>None\<close>.
\<close>

definition read_values :: "('g, 'c, 'r) pilco \<Rightarrow> 'g \<times> 'c \<times> 'r" where
  "read_values self = (mgpr self, controller self, reward self)"

definition assign :: "('g, 'c, 'r) pilco \<Rightarrow> 'g \<times> 'c \<times> 'r \<Rightarrow> ('g, 'c, 'r) pilco" where
  "assign self values =
     (case values of (g, c, r) \<Rightarrow> self\<lparr>mgpr := g, controller := c, reward := r\<rparr>)"

text \<open>The truth value of \<^verbatim>\<open>old_reward > reward\<close> on arrays: the comparison of the
  entries when the result has one element, false when it has none, an error otherwise.\<close>

definition array_greater :: "tensor \<Rightarrow> tensor \<Rightarrow> error + bool" where
  "array_greater a b =
     (case (bdim (nrows a) (nrows b), bdim (ncols a) (ncols b)) of
        (Some r, Some c) \<Rightarrow>
          if r * c = 1 then Inr (entry a 0 0 > entry b 0 0)
          else if r * c = 0 then Inr False
          else Inl ValueError
      | _ \<Rightarrow> Inl ValueError)"

text \<open>One iteration of \<^verbatim>\<open>for r in range(restarts)\<close>. The state is the model, the
  snapshot \<^verbatim>\<open>values\<close>, \<^verbatim>\<open>old_reward\<close> and the random generator.\<close>

definition restart_trial ::
  "('g, 'k policy, 'r) methods
     \<Rightarrow> (('g, 'k policy, 'r) pilco \<Rightarrow> 'g \<times> 'k policy \<times> 'r)
     \<Rightarrow> ('g, 'k policy, 'r) pilco \<times> ('g \<times> 'k policy \<times> 'r) \<times> tensor \<times> rng
     \<Rightarrow> error + (('g, 'k policy, 'r) pilco \<times> ('g \<times> 'k policy \<times> 'r) \<times> tensor \<times> rng)" where
  "restart_trial I minimize st =
     (case st of (self, values, old_reward, g) \<Rightarrow>
        bind_e (perturb self g) (\<lambda>(self1, g1).
        case optimizer self1 of
          None \<Rightarrow> Inl AttributeError
        | Some opt \<Rightarrow>
            let self2 = assign self1 (minimize self1) in
            bind_e (compute_return I self2) (\<lambda>rew.
            bind_e (array_greater old_reward rew) (\<lambda>worse.
            if worse then
              (let self3 = assign self2 values in
               bind_e (compute_return I self3) (\<lambda>printed.
               Inr (self3, values, old_reward, g1)))
            else Inr (self2, read_values self2, rew, g1)))))"

fun restart_loop ::
  "('g, 'k policy, 'r) methods
     \<Rightarrow> (('g, 'k policy, 'r) pilco \<Rightarrow> 'g \<times> 'k policy \<times> 'r)
     \<Rightarrow> nat
     \<Rightarrow> ('g, 'k policy, 'r) pilco \<times> ('g \<times> 'k policy \<times> 'r) \<times> tensor \<times> rng
     \<Rightarrow> error + (('g, 'k policy, 'r) pilco \<times> ('g \<times> 'k policy \<times> 'r) \<times> tensor \<times> rng)" where
  "restart_loop I minimize 0 st = Inr st"
| "restart_loop I minimize (Suc k) st =
     bind_e (restart_trial I minimize st) (restart_loop I minimize k)"

definition restart_controller ::
  "('g, 'k policy, 'r) methods
     \<Rightarrow> (('g, 'k policy, 'r) pilco \<Rightarrow> 'g \<times> 'k policy \<times> 'r)
     \<Rightarrow> ('g, 'k policy, 'r) pilco \<Rightarrow> int \<Rightarrow> rng
     \<Rightarrow> error + (('g, 'k policy, 'r) pilco \<times> ('g \<times> 'k policy \<times> 'r) \<times> tensor \<times> rng)" where
  "restart_controller I minimize self restarts g =
     (let values = read_values self in
      bind_e (compute_return I self) (\<lambda>old_reward.
      restart_loop I minimize (nat restarts) (self, values, old_reward, g)))"

text \<open>What holds of the state at the start of every trial: the snapshot is the parameter
  values of the model, and \<^verbatim>\<open>old_reward\<close> is the return of the model.\<close>

definition trial_invariant ::
  "('g, 'k policy, 'r) methods
     \<Rightarrow> ('g, 'k policy, 'r) pilco \<times> ('g \<times> 'k policy \<times> 'r) \<times> tensor \<times> rng \<Rightarrow> bool" where
  "trial_invariant I st =
     (case st of (self, values, old_reward, g) \<Rightarrow>
        values = read_values self \<and> compute_return I self = Inr old_reward)"

subsection \<open>The perturbation strategies\<close>

text \<open>
  The three strategies of a restart trial and the thresholds that select one, as the
  design describes them: reinitialise, reinitialise near the initial state, perturb in
  place. \<open>resample\<close> draws noise of a parameter's shape, scales it by 0.1, offsets it and
  stores it in the parameter.
\<close>

datatype strategy = Reinitialise | ReinitialiseNearInitial | PerturbInPlace

definition strategy_for :: "real \<Rightarrow> strategy" where
  "strategy_for draw =
     (if draw < 0.33 then Reinitialise
      else if draw < 0.67 then ReinitialiseNearInitial
      else PerturbInPlace)"

definition resample ::
  "tensor \<Rightarrow> (tensor \<Rightarrow> error + tensor) \<Rightarrow> rng \<Rightarrow> error + (tensor \<times> rng)" where
  "resample old offset g =
     (case np_random_normal g (shape old) of (n, g') \<Rightarrow>
        bind_e (offset (np_scale 0.1 n)) (\<lambda>v.
        bind_e (param_assign old v) (\<lambda>v'. Inr (v', g'))))"

definition resample_model ::
  "(tensor \<Rightarrow> error + tensor) \<Rightarrow> (tensor \<Rightarrow> error + tensor) \<Rightarrow> (tensor \<Rightarrow> error + tensor)
     \<Rightarrow> gp_model \<Rightarrow> rng \<Rightarrow> error + (gp_model \<times> rng)" where
  "resample_model fX fY fL m g =
     bind_e (resample (gpX m) fX g) (\<lambda>(x, g1).
     bind_e (resample (gpY m) fY g1) (\<lambda>(y, g2).
     bind_e (resample (lengthscales m) fL g2) (\<lambda>(l, g3).
     Inr (\<lparr>gpX = x, gpY = y, lengthscales = l\<rparr>, g3))))"

fun apply_strategy ::
  "strategy \<Rightarrow> tensor \<Rightarrow> gp_model \<Rightarrow> rng \<Rightarrow> error + (gp_model \<times> rng)" where
  "apply_strategy Reinitialise centre m g =
     resample_model Inr Inr (\<lambda>t. Inr (np_add_scalar t 1)) m g"
| "apply_strategy ReinitialiseNearInitial centre m g =
     resample_model (\<lambda>t. tf_add t centre) Inr (\<lambda>t. Inr (np_add_scalar t 1)) m g"
| "apply_strategy PerturbInPlace centre m g =
     resample_model (\<lambda>t. tf_add t (gpX m)) (\<lambda>t. tf_add t (gpY m))
       (\<lambda>t. tf_add t (lengthscales m)) m g"

fun apply_to_every ::
  "strategy \<Rightarrow> tensor \<Rightarrow> gp_model list \<Rightarrow> rng \<Rightarrow> error + (gp_model list \<times> rng)" where
  "apply_to_every st centre [] g = Inr ([], g)"
| "apply_to_every st centre (m # ms) g =
     (case apply_strategy st centre m g of
        Inl e \<Rightarrow> Inl e
      | Inr (m', g') \<Rightarrow>
          (case apply_to_every st centre ms g' of
             Inl e \<Rightarrow> Inl e
           | Inr (ms', g'') \<Rightarrow> Inr (m' # ms', g'')))"

section \<open>A scalar system\<close>

text \<open>
  A system with one state and one action dimension, for the worked examples. The policy
  is the constant action stored in its first sub-model, the dynamics model predicts a
  change of the state by the action, and the reward of a belief is its mean.
\<close>

definition scalar_action :: "unit policy \<Rightarrow> real" where
  "scalar_action c = (case models c of [] \<Rightarrow> 0 | m # ms \<Rightarrow> entry (gpX m) 0 0)"

definition scalar_methods :: "(unit, unit policy, unit) methods" where
  "scalar_methods =
     \<lparr>predict_on_noisy_inputs =
        (\<lambda>g m s. (Tensor 1 1 [[entry m 0 1]], Tensor 1 1 [[1]], Tensor 2 1 [[1], [0]])),
      compute_action =
        (\<lambda>c m s. (Tensor 1 1 [[scalar_action c]], Tensor 1 1 [[1]], Tensor 1 1 [[1]])),
      compute_reward =
        (\<lambda>r m s. (Tensor 1 1 [[entry m 0 0]], Tensor 1 1 [[0]]))\<rparr>"

definition scalar_policy :: "real \<Rightarrow> unit policy" where
  "scalar_policy u =
     \<lparr>models = [\<lparr>gpX = Tensor 1 1 [[u]], gpY = Tensor 1 1 [[0]],
                 lengthscales = Tensor 1 1 [[1]]\<rparr>],
      policy_rest = ()\<rparr>"

definition scalar_pilco :: "(unit, unit policy, unit) pilco" where
  "scalar_pilco =
     \<lparr>mgpr = (), state_dim = 1, control_dim = 1, horizon = 2,
      controller = scalar_policy 1, reward = (),
      m_init = Tensor 1 1 [[5]], S_init = Tensor 1 1 [[2]],
      optimizer = Some ScipyOptimizer\<rparr>"

definition scalar_factories :: "(unit, unit policy, unit) factories" where
  "scalar_factories =
     \<lparr>MGPR = (\<lambda>X Y. Inr ()), SMGPR = (\<lambda>X Y n. Inr ()),
      LinearController = (\<lambda>d k. Inr \<lparr>models = [], policy_rest = ()\<rparr>),
      ExponentialReward = (\<lambda>d. Inr ())\<rparr>"

definition scalar_minimize ::
  "(unit, unit policy, unit) pilco \<Rightarrow> unit \<times> unit policy \<times> unit" where
  "scalar_minimize self = read_values self"

definition scalar_rng :: "real \<Rightarrow> real \<Rightarrow> rng" where
  "scalar_rng u z = (\<lambda>i. if i = 0 then u else z)"

text \<open>The model after a perturbation near the initial state (draw 0.5, noise 1) and after
  a perturbation in place (draw 0.9, noise -20).\<close>

definition scalar_near_initial :: "(unit, unit policy, unit) pilco" where
  "scalar_near_initial =
     scalar_pilco\<lparr>controller :=
       \<lparr>models = [\<lparr>gpX = Tensor 1 1 [[51 / 10]], gpY = Tensor 1 1 [[1 / 10]],
                   lengthscales = Tensor 1 1 [[11 / 10]]\<rparr>],
        policy_rest = ()\<rparr>\<rparr>"

definition scalar_in_place :: "(unit, unit policy, unit) pilco" where
  "scalar_in_place =
     scalar_pilco\<lparr>controller :=
       \<lparr>models = [\<lparr>gpX = Tensor 1 1 [[- 1]], gpY = Tensor 1 1 [[- 2]],
                   lengthscales = Tensor 1 1 [[- 1]]\<rparr>],
        policy_rest = ()\<rparr>\<rparr>"

section \<open>A planar system\<close>

text \<open>
  A system with two state dimensions and one action dimension whose collaborators return
  fixed moments; the cross term of its propagation step is not a symmetric matrix.
\<close>

definition planar_methods :: "(unit, unit policy, unit) methods" where
  "planar_methods =
     \<lparr>predict_on_noisy_inputs =
        (\<lambda>g m s. (Tensor 1 2 [[1, 0]], Tensor 2 2 [[2, 1], [1, 3]],
                  Tensor 3 2 [[1, 0], [0, 1], [1, 1]])),
      compute_action =
        (\<lambda>c m s. (Tensor 1 1 [[1]], Tensor 1 1 [[1]], Tensor 2 1 [[1], [2]])),
      compute_reward =
        (\<lambda>r m s. (Tensor 1 1 [[entry m 0 0]], Tensor 1 1 [[0]]))\<rparr>"

definition planar_pilco :: "(unit, unit policy, unit) pilco" where
  "planar_pilco =
     \<lparr>mgpr = (), state_dim = 2, control_dim = 1, horizon = 2,
      controller = \<lparr>models = [], policy_rest = ()\<rparr>, reward = (),
      m_init = Tensor 1 2 [[0, 0]], S_init = Tensor 2 2 [[2, 1], [1, 2]],
      optimizer = None\<rparr>"

section \<open>Matrix algebra\<close>

text \<open>The array operations of the program compute the matrix notions above on
  arrays of matching shapes.\<close>

lemma bind_e_simps [simp]:
  "bind_e (Inl e) f = Inl e" "bind_e (Inr v) f = f v"
  by (simp_all add: bind_e_def)

lemma has_shapeD:
  assumes "has_shape r c A"
  shows "nrows A = r" "ncols A = c" "length (rows A) = r"
    and "\<And>i. i < r \<Longrightarrow> length (rows A ! i) = c"
  using assms by (auto simp: has_shape_def well_formed_def list_all_length)

lemma has_shapeI:
  "nrows A = r \<Longrightarrow> ncols A = c \<Longrightarrow> length (rows A) = r
     \<Longrightarrow> (\<And>i. i < r \<Longrightarrow> length (rows A ! i) = c) \<Longrightarrow> has_shape r c A"
  by (auto simp: has_shape_def well_formed_def list_all_length)

lemma has_shape_from_entries [simp]: "has_shape r c (from_entries r c f)"
  by (rule has_shapeI) (simp_all add: from_entries_def)

lemma dims_from_entries [simp]:
  "nrows (from_entries r c f) = r" "ncols (from_entries r c f) = c"
  by (simp_all add: from_entries_def)

lemma entry_from_entries [simp]:
  "i < r \<Longrightarrow> j < c \<Longrightarrow> entry (from_entries r c f) i j = f i j"
  by (simp add: from_entries_def entry_def)

lemma tensor_eqI:
  assumes A: "has_shape r c A" and B: "has_shape r c B"
    and eq: "\<And>i j. i < r \<Longrightarrow> j < c \<Longrightarrow> entry A i j = entry B i j"
  shows "A = B"
proof -
  have "rows A = rows B"
  proof (rule nth_equalityI)
    show "length (rows A) = length (rows B)"
      using has_shapeD(3)[OF A] has_shapeD(3)[OF B] by simp
  next
    fix i assume "i < length (rows A)"
    then have i: "i < r" using has_shapeD(3)[OF A] by simp
    show "rows A ! i = rows B ! i"
    proof (rule nth_equalityI)
      show "length (rows A ! i) = length (rows B ! i)"
        using has_shapeD(4)[OF A i] has_shapeD(4)[OF B i] by simp
    next
      fix j assume "j < length (rows A ! i)"
      then have "j < c" using has_shapeD(4)[OF A i] by simp
      from eq[OF i this] show "rows A ! i ! j = rows B ! i ! j"
        by (simp add: entry_def)
    qed
  qed
  moreover have "nrows A = nrows B" "ncols A = ncols B"
    using has_shapeD(1,2)[OF A] has_shapeD(1,2)[OF B] by simp_all
  ultimately show ?thesis by (simp add: tensor.expand)
qed

lemma from_entries_self:
  assumes "has_shape r c A" shows "from_entries r c (entry A) = A"
  by (rule tensor_eqI[OF _ assms]) simp_all

lemma has_shape_mat_add:
  "has_shape r c A \<Longrightarrow> has_shape r c (mat_add A B)"
  by (simp add: mat_add_def has_shapeD(1,2))

lemma entry_mat_add:
  "has_shape r c A \<Longrightarrow> i < r \<Longrightarrow> j < c
     \<Longrightarrow> entry (mat_add A B) i j = entry A i j + entry B i j"
  by (simp add: mat_add_def has_shapeD(1,2))

lemma bidx_id: "i < n \<Longrightarrow> bidx n i = i"
  by (auto simp: bidx_def)

lemma tf_add_same_shape:
  assumes A: "has_shape r c A" and B: "has_shape r c B"
  shows "tf_add A B = Inr (mat_add A B)"
proof -
  let ?R = "from_entries r c (\<lambda>i j. entry A (bidx r i) (bidx c j)
                                   + entry B (bidx r i) (bidx c j))"
  have 1: "tf_add A B = Inr ?R"
    using has_shapeD(1,2)[OF A] has_shapeD(1,2)[OF B] by (simp add: tf_add_def bdim_def)
  have "?R = mat_add A B"
    by (rule tensor_eqI[OF _ has_shape_mat_add[OF A]])
       (simp_all add: entry_mat_add[OF A] bidx_id)
  with 1 show ?thesis by simp
qed

lemma has_shape_mat_transpose:
  "has_shape r c A \<Longrightarrow> has_shape c r (mat_transpose A)"
  by (simp add: mat_transpose_def has_shapeD(1,2))

lemma entry_mat_transpose:
  "has_shape r c A \<Longrightarrow> i < c \<Longrightarrow> j < r \<Longrightarrow> entry (mat_transpose A) i j = entry A j i"
  by (simp add: mat_transpose_def has_shapeD(1,2))

lemma tf_transpose_eq:
  assumes A: "has_shape r c A"
  shows "tf_transpose A = mat_transpose A"
proof (rule tensor_eqI[OF _ has_shape_mat_transpose[OF A]])
  show "has_shape c r (tf_transpose A)"
    using has_shapeD[OF A] by (intro has_shapeI) (simp_all add: tf_transpose_def col_def)
next
  fix i j assume "i < c" "j < r"
  then show "entry (tf_transpose A) i j = entry (mat_transpose A) i j"
    using has_shapeD[OF A]
    by (simp add: entry_mat_transpose[OF A]) (simp add: tf_transpose_def col_def entry_def)
qed

lemma map2_index:
  "length xs = length ys \<Longrightarrow> map2 f xs ys = map (\<lambda>q. f (xs ! q) (ys ! q)) [0..<length xs]"
  by (rule nth_equalityI) simp_all

lemma dot_index:
  "length xs = k \<Longrightarrow> length ys = k
     \<Longrightarrow> dot xs ys = sum_list (map (\<lambda>q. xs ! q * ys ! q) [0..<k])"
  by (simp add: dot_def map2_index)

lemma has_shape_mat_mul:
  "has_shape r k A \<Longrightarrow> has_shape k c B \<Longrightarrow> has_shape r c (mat_mul A B)"
  by (simp add: mat_mul_def has_shapeD(1,2))

lemma entry_mat_mul:
  "has_shape r k A \<Longrightarrow> has_shape k c B \<Longrightarrow> i < r \<Longrightarrow> j < c \<Longrightarrow>
     entry (mat_mul A B) i j = sum_list (map (\<lambda>q. entry A i q * entry B q j) [0..<k])"
  by (simp add: mat_mul_def has_shapeD(1,2))

lemma tf_matmul_eq:
  assumes A: "has_shape r k A" and B: "has_shape k c B"
  shows "tf_matmul A B = Inr (mat_mul A B)"
proof -
  let ?R = "Tensor r c (map (\<lambda>row. map (\<lambda>j. dot row (col B j)) [0..<c]) (rows A))"
  have 1: "tf_matmul A B = Inr ?R"
    using has_shapeD(1,2)[OF A] has_shapeD(1,2)[OF B] by (simp add: tf_matmul_def)
  have 2: "has_shape r c ?R"
    using has_shapeD[OF A] by (intro has_shapeI) simp_all
  have "?R = mat_mul A B"
  proof (rule tensor_eqI[OF 2 has_shape_mat_mul[OF A B]])
    fix i j assume ij: "i < r" "j < c"
    have "entry ?R i j = dot (rows A ! i) (col B j)"
      using ij has_shapeD[OF A] by (simp add: entry_def)
    also have "\<dots> = sum_list (map (\<lambda>q. rows A ! i ! q * col B j ! q) [0..<k])"
      using ij has_shapeD[OF A] has_shapeD[OF B] by (intro dot_index) (simp_all add: col_def)
    also have "\<dots> = sum_list (map (\<lambda>q. entry A i q * entry B q j) [0..<k])"
      using has_shapeD[OF B] by (intro arg_cong[where f=sum_list] map_cong) (simp_all add: col_def entry_def)
    finally show "entry ?R i j = entry (mat_mul A B) i j"
      by (simp add: entry_mat_mul[OF A B ij])
  qed
  with 1 show ?thesis by simp
qed

lemma mat_transpose_mul:
  assumes A: "has_shape r k A" and B: "has_shape k c B"
  shows "mat_mul (mat_transpose B) (mat_transpose A) = mat_transpose (mat_mul A B)"
proof (rule tensor_eqI)
  show "has_shape c r (mat_mul (mat_transpose B) (mat_transpose A))"
    by (rule has_shape_mat_mul[OF has_shape_mat_transpose[OF B] has_shape_mat_transpose[OF A]])
  show "has_shape c r (mat_transpose (mat_mul A B))"
    by (rule has_shape_mat_transpose[OF has_shape_mat_mul[OF A B]])
next
  fix i j assume ij: "i < c" "j < r"
  have "entry (mat_mul (mat_transpose B) (mat_transpose A)) i j
        = sum_list (map (\<lambda>q. entry (mat_transpose B) i q * entry (mat_transpose A) q j) [0..<k])"
    by (rule entry_mat_mul[OF has_shape_mat_transpose[OF B] has_shape_mat_transpose[OF A] ij])
  also have "\<dots> = sum_list (map (\<lambda>q. entry A j q * entry B q i) [0..<k])"
    using ij by (intro arg_cong[where f=sum_list] map_cong)
                (simp_all add: entry_mat_transpose[OF A] entry_mat_transpose[OF B])
  also have "\<dots> = entry (mat_transpose (mat_mul A B)) i j"
    using ij by (simp add: entry_mat_transpose[OF has_shape_mat_mul[OF A B]] entry_mat_mul[OF A B])
  finally show "entry (mat_mul (mat_transpose B) (mat_transpose A)) i j
        = entry (mat_transpose (mat_mul A B)) i j" .
qed

lemma tf_matmul_t_both:
  assumes A: "has_shape r k A" and B: "has_shape k c B"
  shows "tf_matmul_t B A True True = Inr (mat_transpose (mat_mul A B))"
  using tf_matmul_eq[OF has_shape_mat_transpose[OF B] has_shape_mat_transpose[OF A]]
  by (simp add: tf_matmul_t_def tf_transpose_eq[OF A] tf_transpose_eq[OF B]
        mat_transpose_mul[OF A B])

lemma has_shape_block_row:
  "has_shape r c1 A \<Longrightarrow> has_shape r c2 B \<Longrightarrow> has_shape r (c1 + c2) (block_row A B)"
  by (simp add: block_row_def has_shapeD(1,2))

lemma tf_concat1_eq:
  assumes A: "has_shape r c1 A" and B: "has_shape r c2 B"
  shows "tf_concat1 A B = Inr (block_row A B)"
proof -
  let ?R = "Tensor r (c1 + c2) (map2 (@) (rows A) (rows B))"
  have 1: "tf_concat1 A B = Inr ?R"
    using has_shapeD(1,2)[OF A] has_shapeD(1,2)[OF B] by (simp add: tf_concat1_def)
  have 2: "has_shape r (c1 + c2) ?R"
    using has_shapeD[OF A] has_shapeD[OF B] by (intro has_shapeI) simp_all
  have "?R = block_row A B"
  proof (rule tensor_eqI[OF 2 has_shape_block_row[OF A B]])
    fix i j assume ij: "i < r" "j < c1 + c2"
    then show "entry ?R i j = entry (block_row A B) i j"
      using has_shapeD[OF A] has_shapeD[OF B]
      by (simp add: block_row_def) (simp add: entry_def nth_append)
  qed
  with 1 show ?thesis by simp
qed

lemma has_shape_block_matrix:
  "has_shape r1 c1 A \<Longrightarrow> has_shape r1 c2 B \<Longrightarrow> has_shape r2 c1 C \<Longrightarrow> has_shape r2 c2 D
     \<Longrightarrow> has_shape (r1 + r2) (c1 + c2) (block_matrix A B C D)"
  by (simp add: block_matrix_def has_shapeD(1,2))

lemma tf_concat0_block:
  assumes A: "has_shape r1 c1 A" and B: "has_shape r1 c2 B"
    and C: "has_shape r2 c1 C" and D: "has_shape r2 c2 D"
  shows "tf_concat0 (block_row A B) (block_row C D) = Inr (block_matrix A B C D)"
proof -
  note AB = has_shape_block_row[OF A B] and CD = has_shape_block_row[OF C D]
  let ?R = "Tensor (r1 + r2) (c1 + c2) (rows (block_row A B) @ rows (block_row C D))"
  have 1: "tf_concat0 (block_row A B) (block_row C D) = Inr ?R"
    using has_shapeD(1,2)[OF AB] has_shapeD(1,2)[OF CD] by (simp add: tf_concat0_def)
  have 2: "has_shape (r1 + r2) (c1 + c2) ?R"
    using has_shapeD[OF AB] has_shapeD[OF CD] by (intro has_shapeI) (simp_all add: nth_append)
  have "?R = block_matrix A B C D"
  proof (rule tensor_eqI[OF 2 has_shape_block_matrix[OF A B C D]])
    fix i j assume ij: "i < r1 + r2" "j < c1 + c2"
    have L: "entry ?R i j = (if i < r1 then entry (block_row A B) i j
                              else entry (block_row C D) (i - r1) j)"
      using has_shapeD(3)[OF AB] by (simp add: entry_def nth_append)
    show "entry ?R i j = entry (block_matrix A B C D) i j"
      unfolding L using ij has_shapeD(1,2)[OF A] has_shapeD(1,2)[OF B]
        has_shapeD(1,2)[OF C] has_shapeD(1,2)[OF D]
      by (simp add: block_matrix_def block_row_def)
  qed
  with 1 show ?thesis by simp
qed

lemma first_rows_block_matrix:
  assumes A: "has_shape r1 c1 A" and B: "has_shape r1 c2 B"
    and C: "has_shape r2 c1 C" and D: "has_shape r2 c2 D"
  shows "first_rows r1 (block_matrix A B C D) = block_row A B"
proof (rule tensor_eqI[OF _ has_shape_block_row[OF A B]])
  show "has_shape r1 (c1 + c2) (first_rows r1 (block_matrix A B C D))"
    using has_shapeD(1,2)[OF has_shape_block_matrix[OF A B C D]] by (simp add: first_rows_def)
next
  fix i j assume "i < r1" "j < c1 + c2"
  then show "entry (first_rows r1 (block_matrix A B C D)) i j = entry (block_row A B) i j"
    using has_shapeD(1,2)[OF A] has_shapeD(1,2)[OF B] has_shapeD(1,2)[OF C]
    by (simp add: first_rows_def block_matrix_def block_row_def)
qed

section \<open>Properties of propagate\<close>

declare predict_loop.simps [simp del]

lemma joint_input_eq:
  assumes m_x: "has_shape 1 d m_x" and s_x: "has_shape d d s_x"
    and ca: "compute_action I (controller self) m_x s_x = (m_u, s_u, c_xu)"
    and m_u: "has_shape 1 k m_u" and s_u: "has_shape k k s_u" and c_xu: "has_shape d k c_xu"
  shows "joint_input I self m_x s_x =
           Inr (block_row m_x m_u,
                block_matrix s_x (mat_mul s_x c_xu) (mat_transpose (mat_mul s_x c_xu)) s_u,
                block_row s_x (mat_mul s_x c_xu))"
proof -
  note sc = has_shape_mat_mul[OF s_x c_xu]
  note sct = has_shape_mat_transpose[OF sc]
  show ?thesis
    by (simp add: joint_input_def ca tf_concat1_eq[OF m_x m_u] tf_matmul_eq[OF s_x c_xu]
          tf_concat1_eq[OF s_x sc] tf_transpose_eq[OF sc] tf_concat1_eq[OF sct s_u]
          tf_concat0_block[OF s_x sc sct s_u])
qed

lemma set_shape_ok: "has_shape r c t \<Longrightarrow> set_shape t r c = Inr t"
  by (simp add: set_shape_def has_shapeD(1,2))

lemma propagate_eq:
  assumes m_x: "has_shape 1 d m_x" and s_x: "has_shape d d s_x" and d: "state_dim self = d"
    and ji: "joint_input I self m_x s_x = Inr (m, s, s1)" and s1: "has_shape d n s1"
    and dm: "predict_on_noisy_inputs I (mgpr self) m s = (M_dx, S_dx, C_dx)"
    and M_dx: "has_shape 1 d M_dx" and S_dx: "has_shape d d S_dx" and C_dx: "has_shape n d C_dx"
  shows "propagate I self m_x s_x =
           Inr (mat_add M_dx m_x,
                mat_add (mat_add (mat_add S_dx s_x) (mat_mul s1 C_dx))
                        (mat_transpose (mat_mul s1 C_dx)))"
proof -
  note t = has_shape_mat_mul[OF s1 C_dx]
  note a1 = has_shape_mat_add[OF S_dx, of s_x]
  note a2 = has_shape_mat_add[OF a1, of "mat_mul s1 C_dx"]
  note a3 = has_shape_mat_add[OF a2, of "mat_transpose (mat_mul s1 C_dx)"]
  show ?thesis
    by (simp add: propagate_def ji dm d tf_add_same_shape[OF M_dx m_x]
          tf_add_same_shape[OF S_dx s_x] tf_matmul_eq[OF s1 C_dx] tf_add_same_shape[OF a1 t]
          tf_matmul_t_both[OF s1 C_dx] tf_add_same_shape[OF a2 has_shape_mat_transpose[OF t]]
          set_shape_ok[OF has_shape_mat_add[OF M_dx]] set_shape_ok[OF a3]
          del: One_nat_def)
qed

lemma scalar_joint:
  "joint_input scalar_methods scalar_pilco (Tensor 1 1 [[5]]) (Tensor 1 1 [[2]])
     = Inr (Tensor 1 2 [[5, 1]], Tensor 2 2 [[2, 2], [2, 1]], Tensor 1 2 [[2, 2]])"
  by (simp add: joint_input_def scalar_methods_def scalar_pilco_def scalar_policy_def
        scalar_action_def entry_def tf_concat1_def tf_concat0_def tf_matmul_def
        tf_transpose_def col_def dot_def)

lemma scalar_propagate:
  "propagate scalar_methods scalar_pilco (Tensor 1 1 [[5]]) (Tensor 1 1 [[2]])
     = Inr (Tensor 1 1 [[6]], Tensor 1 1 [[7]])"
  by (simp add: propagate_def scalar_joint del: One_nat_def)
     (simp add: scalar_methods_def scalar_pilco_def entry_def tf_matmul_def tf_matmul_t_def
        tf_transpose_def col_def dot_def tf_add_def bdim_def bidx_def from_entries_def
        set_shape_def numeral_2_eq_2)

lemma mat_add_commute:
  assumes "has_shape r c A" "has_shape r c B"
  shows "mat_add A B = mat_add B A"
  by (rule tensor_eqI[OF has_shape_mat_add[OF assms(1)] has_shape_mat_add[OF assms(2)]])
     (simp add: entry_mat_add[OF assms(1)] entry_mat_add[OF assms(2)])

lemma has_shape_Tensor [simp]:
  "has_shape r c (Tensor r' c' xs) \<longleftrightarrow>
     r' = r \<and> c' = c \<and> length xs = r \<and> list_all (\<lambda>row. length row = c) xs"
  by (auto simp: has_shape_def well_formed_def)

text \<open>
  C3. The joint input belief built by \<^verbatim>\<open>propagate\<close> has as mean the state mean followed
  by the action mean. Its covariance is the block matrix with the state covariance and the
  action covariance on the diagonal; the off-diagonal blocks are the product of the state
  covariance with the third value returned by \<^verbatim>\<open>compute_action\<close>, and the transpose of
  that product.
\<close>

theorem joint_input_belief:
  assumes "has_shape 1 d m_x" and "has_shape d d s_x"
    and "compute_action I (controller self) m_x s_x = (m_u, s_u, c_xu)"
    and "has_shape 1 k m_u" and "has_shape k k s_u" and "has_shape d k c_xu"
  shows "joint_input I self m_x s_x =
           Inr (block_row m_x m_u,
                block_matrix s_x (mat_mul s_x c_xu) (mat_transpose (mat_mul s_x c_xu)) s_u,
                block_row s_x (mat_mul s_x c_xu))"
  using assms by (rule joint_input_eq)

lemma scalar_compute_action:
  "compute_action scalar_methods (controller scalar_pilco) m s
     = (Tensor 1 1 [[1]], Tensor 1 1 [[1]], Tensor 1 1 [[1]])"
  by (simp add: scalar_methods_def scalar_pilco_def scalar_policy_def scalar_action_def entry_def)

theorem joint_input_belief_witness:
  "has_shape 1 1 (Tensor 1 1 [[5]]) \<and> has_shape 1 1 (Tensor 1 1 [[2]])
   \<and> compute_action scalar_methods (controller scalar_pilco) (Tensor 1 1 [[5]]) (Tensor 1 1 [[2]])
       = (Tensor 1 1 [[1]], Tensor 1 1 [[1]], Tensor 1 1 [[1]])
   \<and> has_shape 1 1 (Tensor 1 1 [[1]])
   \<and> joint_input scalar_methods scalar_pilco (Tensor 1 1 [[5]]) (Tensor 1 1 [[2]]) =
           Inr (block_row (Tensor 1 1 [[5]]) (Tensor 1 1 [[1]]),
                block_matrix (Tensor 1 1 [[2]]) (mat_mul (Tensor 1 1 [[2]]) (Tensor 1 1 [[1]]))
                  (mat_transpose (mat_mul (Tensor 1 1 [[2]]) (Tensor 1 1 [[1]])))
                  (Tensor 1 1 [[1]]),
                block_row (Tensor 1 1 [[2]]) (mat_mul (Tensor 1 1 [[2]]) (Tensor 1 1 [[1]])))"
proof -
  have a: "has_shape 1 1 (Tensor 1 1 [[5]])" and b: "has_shape 1 1 (Tensor 1 1 [[2]])"
    and c: "has_shape 1 1 (Tensor 1 1 [[1]])"
    by simp_all
  note ca = scalar_compute_action[of "Tensor 1 1 [[5]]" "Tensor 1 1 [[2]]"]
  show ?thesis
    by (intro conjI a b c ca joint_input_belief[OF a b ca c c c])
qed

theorem joint_covariance_counterexample:
  "compute_action scalar_methods (controller scalar_pilco) (Tensor 1 1 [[5]]) (Tensor 1 1 [[2]])
       = (Tensor 1 1 [[1]], Tensor 1 1 [[1]], Tensor 1 1 [[1]])
   \<and> joint_input scalar_methods scalar_pilco (Tensor 1 1 [[5]]) (Tensor 1 1 [[2]])
       = Inr (Tensor 1 2 [[5, 1]], Tensor 2 2 [[2, 2], [2, 1]], Tensor 1 2 [[2, 2]])
   \<and> Tensor 2 2 [[2, 2], [2, 1]]
       \<noteq> block_matrix (Tensor 1 1 [[2]]) (Tensor 1 1 [[1]])
            (mat_transpose (Tensor 1 1 [[1]])) (Tensor 1 1 [[1]])"
proof (intro conjI)
  show "Tensor 2 2 [[2, 2], [2, 1]]
       \<noteq> block_matrix (Tensor 1 1 [[2]]) (Tensor 1 1 [[1]])
            (mat_transpose (Tensor 1 1 [[1]])) (Tensor 1 1 [[1]])"
    by (simp add: block_matrix_def mat_transpose_def from_entries_def entry_def numeral_2_eq_2)
qed (rule scalar_compute_action scalar_joint)+

text \<open>
  C2. \<^verbatim>\<open>propagate\<close> returns as next mean the state mean plus the predicted delta mean,
  and as next covariance the delta covariance plus the state covariance plus the cross
  term plus the transpose of the cross term. The cross term is the first block-row of the
  joint input covariance times the input-output cross-covariance of the dynamics model.
\<close>

theorem propagate_next_belief:
  assumes m_x: "has_shape 1 d m_x" and s_x: "has_shape d d s_x" and d: "state_dim self = d"
    and ca: "compute_action I (controller self) m_x s_x = (m_u, s_u, c_xu)"
    and m_u: "has_shape 1 k m_u" and s_u: "has_shape k k s_u" and c_xu: "has_shape d k c_xu"
    and ji: "joint_input I self m_x s_x = Inr (m, s, s1)"
    and dm: "predict_on_noisy_inputs I (mgpr self) m s = (M_dx, S_dx, C_dx)"
    and M_dx: "has_shape 1 d M_dx" and S_dx: "has_shape d d S_dx"
    and C_dx: "has_shape (d + k) d C_dx"
  shows "propagate I self m_x s_x =
           Inr (mat_add m_x M_dx,
                mat_add (mat_add (mat_add S_dx s_x) (mat_mul (first_rows d s) C_dx))
                        (mat_transpose (mat_mul (first_rows d s) C_dx)))"
proof -
  note sc = has_shape_mat_mul[OF s_x c_xu]
  note sct = has_shape_mat_transpose[OF sc]
  from ji joint_input_eq[OF m_x s_x ca m_u s_u c_xu]
  have s: "s = block_matrix s_x (mat_mul s_x c_xu) (mat_transpose (mat_mul s_x c_xu)) s_u"
    and s1: "s1 = block_row s_x (mat_mul s_x c_xu)"
    by simp_all
  have fr: "first_rows d s = s1"
    unfolding s s1 by (rule first_rows_block_matrix[OF s_x sc sct s_u])
  have s1_shape: "has_shape d (d + k) s1"
    unfolding s1 by (rule has_shape_block_row[OF s_x sc])
  show ?thesis
    unfolding fr mat_add_commute[OF m_x M_dx]
    by (rule propagate_eq[OF m_x s_x d ji s1_shape dm M_dx S_dx C_dx])
qed


lemma planar_state_dim: "state_dim planar_pilco = 2"
  by (simp add: planar_pilco_def)

lemma planar_compute_action:
  "compute_action planar_methods c m s
     = (Tensor 1 1 [[1]], Tensor 1 1 [[1]], Tensor 2 1 [[1], [2]])"
  by (simp add: planar_methods_def)

lemma planar_dynamics:
  "predict_on_noisy_inputs planar_methods g m s
     = (Tensor 1 2 [[1, 0]], Tensor 2 2 [[2, 1], [1, 3]], Tensor 3 2 [[1, 0], [0, 1], [1, 1]])"
  by (simp add: planar_methods_def)

lemma planar_joint:
  "joint_input planar_methods planar_pilco (Tensor 1 2 [[0, 0]]) (Tensor 2 2 [[2, 1], [1, 2]])
     = Inr (Tensor 1 3 [[0, 0, 1]],
            Tensor 3 3 [[2, 1, 4], [1, 2, 5], [4, 5, 1]],
            Tensor 2 3 [[2, 1, 4], [1, 2, 5]])"
  by (simp add: joint_input_def planar_compute_action tf_concat1_def tf_concat0_def
        tf_matmul_def tf_transpose_def col_def dot_def numeral_2_eq_2)

lemma planar_propagate:
  "propagate planar_methods planar_pilco (Tensor 1 2 [[0, 0]]) (Tensor 2 2 [[2, 1], [1, 2]])
     = Inr (Tensor 1 2 [[1, 0]], Tensor 2 2 [[16, 13], [13, 19]])"
  by (simp add: propagate_def planar_joint planar_dynamics del: One_nat_def)
     (simp add: planar_pilco_def entry_def tf_matmul_def tf_matmul_t_def
        tf_transpose_def col_def dot_def tf_add_def bdim_def bidx_def from_entries_def
        set_shape_def numeral_2_eq_2 numeral_3_eq_3)



theorem propagate_next_belief_witness:
  "has_shape 1 2 (Tensor 1 2 [[0, 0]]) \<and> has_shape 2 2 (Tensor 2 2 [[2, 1], [1, 2]])
   \<and> state_dim planar_pilco = 2
   \<and> compute_action planar_methods (controller planar_pilco)
         (Tensor 1 2 [[0, 0]]) (Tensor 2 2 [[2, 1], [1, 2]])
       = (Tensor 1 1 [[1]], Tensor 1 1 [[1]], Tensor 2 1 [[1], [2]])
   \<and> has_shape 1 1 (Tensor 1 1 [[1]]) \<and> has_shape 2 1 (Tensor 2 1 [[1], [2]])
   \<and> joint_input planar_methods planar_pilco (Tensor 1 2 [[0, 0]]) (Tensor 2 2 [[2, 1], [1, 2]])
       = Inr (Tensor 1 3 [[0, 0, 1]],
              Tensor 3 3 [[2, 1, 4], [1, 2, 5], [4, 5, 1]],
              Tensor 2 3 [[2, 1, 4], [1, 2, 5]])
   \<and> predict_on_noisy_inputs planar_methods (mgpr planar_pilco)
         (Tensor 1 3 [[0, 0, 1]]) (Tensor 3 3 [[2, 1, 4], [1, 2, 5], [4, 5, 1]])
       = (Tensor 1 2 [[1, 0]], Tensor 2 2 [[2, 1], [1, 3]],
          Tensor 3 2 [[1, 0], [0, 1], [1, 1]])
   \<and> has_shape 1 2 (Tensor 1 2 [[1, 0]]) \<and> has_shape 2 2 (Tensor 2 2 [[2, 1], [1, 3]])
   \<and> has_shape (2 + 1) 2 (Tensor 3 2 [[1, 0], [0, 1], [1, 1]])
   \<and> propagate planar_methods planar_pilco (Tensor 1 2 [[0, 0]]) (Tensor 2 2 [[2, 1], [1, 2]])
       = Inr (mat_add (Tensor 1 2 [[0, 0]]) (Tensor 1 2 [[1, 0]]),
              mat_add
                (mat_add (mat_add (Tensor 2 2 [[2, 1], [1, 3]]) (Tensor 2 2 [[2, 1], [1, 2]]))
                   (mat_mul (first_rows 2 (Tensor 3 3 [[2, 1, 4], [1, 2, 5], [4, 5, 1]]))
                            (Tensor 3 2 [[1, 0], [0, 1], [1, 1]])))
                (mat_transpose
                   (mat_mul (first_rows 2 (Tensor 3 3 [[2, 1, 4], [1, 2, 5], [4, 5, 1]]))
                            (Tensor 3 2 [[1, 0], [0, 1], [1, 1]]))))
   \<and> propagate planar_methods planar_pilco (Tensor 1 2 [[0, 0]]) (Tensor 2 2 [[2, 1], [1, 2]])
       = Inr (Tensor 1 2 [[1, 0]], Tensor 2 2 [[16, 13], [13, 19]])"
proof -
  have m_x: "has_shape 1 2 (Tensor 1 2 [[0, 0]])"
    and s_x: "has_shape 2 2 (Tensor 2 2 [[2, 1], [1, 2]])"
    and u: "has_shape 1 1 (Tensor 1 1 [[1]])"
    and c_xu: "has_shape 2 1 (Tensor 2 1 [[1], [2]])"
    and M_dx: "has_shape 1 2 (Tensor 1 2 [[1, 0]])"
    and S_dx: "has_shape 2 2 (Tensor 2 2 [[2, 1], [1, 3]])"
    and C_dx: "has_shape (2 + 1) 2 (Tensor 3 2 [[1, 0], [0, 1], [1, 1]])"
    by simp_all
  note ca = planar_compute_action[of "controller planar_pilco" "Tensor 1 2 [[0, 0]]"
      "Tensor 2 2 [[2, 1], [1, 2]]"]
  note dm = planar_dynamics[of "mgpr planar_pilco" "Tensor 1 3 [[0, 0, 1]]"
      "Tensor 3 3 [[2, 1, 4], [1, 2, 5], [4, 5, 1]]"]
  show ?thesis
    by (intro conjI m_x s_x u c_xu M_dx S_dx C_dx planar_state_dim ca dm planar_joint
          planar_propagate
          propagate_next_belief[OF m_x s_x planar_state_dim ca u u c_xu planar_joint dm
            M_dx S_dx C_dx])
qed

section \<open>Properties of the rollout\<close>

lemma contract_action:
  assumes "respects_contract I self k"
  obtains m_u s_u c_xu where "compute_action I (controller self) m s = (m_u, s_u, c_xu)"
    and "has_shape 1 k m_u" and "has_shape k k s_u" and "has_shape (state_dim self) k c_xu"
proof -
  obtain m_u s_u c_xu where e: "compute_action I (controller self) m s = (m_u, s_u, c_xu)"
    by (cases "compute_action I (controller self) m s") auto
  from assms have "has_shape 1 k (fst (compute_action I (controller self) m s))"
    and "has_shape k k (fst (snd (compute_action I (controller self) m s)))"
    and "has_shape (state_dim self) k (snd (snd (compute_action I (controller self) m s)))"
    unfolding respects_contract_def by blast+
  with e that show thesis by simp
qed

lemma contract_dynamics:
  assumes "respects_contract I self k"
  obtains M_dx S_dx C_dx
  where "predict_on_noisy_inputs I (mgpr self) m s = (M_dx, S_dx, C_dx)"
    and "has_shape 1 (state_dim self) M_dx"
    and "has_shape (state_dim self) (state_dim self) S_dx"
    and "has_shape (state_dim self + k) (state_dim self) C_dx"
proof -
  obtain M_dx S_dx C_dx where e: "predict_on_noisy_inputs I (mgpr self) m s = (M_dx, S_dx, C_dx)"
    by (cases "predict_on_noisy_inputs I (mgpr self) m s") auto
  from assms have "has_shape 1 (state_dim self) (fst (predict_on_noisy_inputs I (mgpr self) m s))"
    and "has_shape (state_dim self) (state_dim self)
           (fst (snd (predict_on_noisy_inputs I (mgpr self) m s)))"
    and "has_shape (state_dim self + k) (state_dim self)
           (snd (snd (predict_on_noisy_inputs I (mgpr self) m s)))"
    unfolding respects_contract_def by blast+
  with e that show thesis by simp
qed

lemma contract_reward:
  "respects_contract I self k \<Longrightarrow> has_shape 1 1 (fst (compute_reward I (reward self) m s))"
  unfolding respects_contract_def by blast

lemma symmetric_iff:
  assumes A: "has_shape d d A"
  shows "symmetric A \<longleftrightarrow> (\<forall>i<d. \<forall>j<d. entry A i j = entry A j i)"
proof
  assume "symmetric A"
  then have e: "mat_transpose A = A" by (simp add: symmetric_def)
  show "\<forall>i<d. \<forall>j<d. entry A i j = entry A j i"
  proof (intro allI impI)
    fix i j assume "i < d" "j < d"
    then have "entry (mat_transpose A) i j = entry A j i"
      by (simp add: entry_mat_transpose[OF A])
    then show "entry A i j = entry A j i" by (simp add: e)
  qed
next
  assume s: "\<forall>i<d. \<forall>j<d. entry A i j = entry A j i"
  have "mat_transpose A = A"
    by (rule tensor_eqI[OF has_shape_mat_transpose[OF A] A])
       (simp add: entry_mat_transpose[OF A] s)
  then show "symmetric A" by (simp add: symmetric_def)
qed

lemma propagate_step:
  assumes c: "respects_contract I self k"
    and m_x: "has_shape 1 (state_dim self) m_x"
    and s_x: "has_shape (state_dim self) (state_dim self) s_x"
  obtains M_x S_x where "propagate I self m_x s_x = Inr (M_x, S_x)"
    and "has_shape 1 (state_dim self) M_x"
    and "has_shape (state_dim self) (state_dim self) S_x"
    and "symmetric s_x \<longrightarrow>
         (\<forall>m s. symmetric (fst (snd (predict_on_noisy_inputs I (mgpr self) m s))))
         \<longrightarrow> symmetric S_x"
proof -
  let ?d = "state_dim self"
  obtain m_u s_u c_xu where ca: "compute_action I (controller self) m_x s_x = (m_u, s_u, c_xu)"
    and m_u: "has_shape 1 k m_u" and s_u: "has_shape k k s_u" and c_xu: "has_shape ?d k c_xu"
    by (rule contract_action[OF c])
  note ji = joint_input_eq[OF m_x s_x ca m_u s_u c_xu]
  let ?m = "block_row m_x m_u"
  let ?s = "block_matrix s_x (mat_mul s_x c_xu) (mat_transpose (mat_mul s_x c_xu)) s_u"
  let ?s1 = "block_row s_x (mat_mul s_x c_xu)"
  obtain M_dx S_dx C_dx
    where dm: "predict_on_noisy_inputs I (mgpr self) ?m ?s = (M_dx, S_dx, C_dx)"
      and M_dx: "has_shape 1 ?d M_dx" and S_dx: "has_shape ?d ?d S_dx"
      and C_dx: "has_shape (?d + k) ?d C_dx"
    by (rule contract_dynamics[OF c])
  have s1: "has_shape ?d (?d + k) ?s1"
    by (rule has_shape_block_row[OF s_x has_shape_mat_mul[OF s_x c_xu]])
  let ?T = "mat_mul ?s1 C_dx"
  let ?M = "mat_add M_dx m_x"
  let ?S = "mat_add (mat_add (mat_add S_dx s_x) ?T) (mat_transpose ?T)"
  have T: "has_shape ?d ?d ?T" by (rule has_shape_mat_mul[OF s1 C_dx])
  note a1 = has_shape_mat_add[OF S_dx, of s_x]
  note a2 = has_shape_mat_add[OF a1, of ?T]
  have S: "has_shape ?d ?d ?S" by (rule has_shape_mat_add[OF a2])
  have p: "propagate I self m_x s_x = Inr (?M, ?S)"
    by (rule propagate_eq[OF m_x s_x refl ji s1 dm M_dx S_dx C_dx])
  have sym: "symmetric ?S"
    if sx: "symmetric s_x"
      and sd: "\<forall>m s. symmetric (fst (snd (predict_on_noisy_inputs I (mgpr self) m s)))"
  proof -
    from sd[rule_format, of ?m ?s] dm have sdx: "symmetric S_dx" by simp
    show ?thesis
      unfolding symmetric_iff[OF S]
    proof (intro allI impI)
      fix i j assume ij: "i < ?d" "j < ?d"
      have "entry S_dx i j = entry S_dx j i" "entry s_x i j = entry s_x j i"
        using sdx sx ij by (simp_all add: symmetric_iff[OF S_dx] symmetric_iff[OF s_x])
      then show "entry ?S i j = entry ?S j i"
        using ij by (simp add: entry_mat_add[OF a2] entry_mat_add[OF a1] entry_mat_add[OF S_dx]
              entry_mat_transpose[OF T])
    qed
  qed
  show thesis using that[OF p has_shape_mat_add[OF M_dx] S] sym by blast
qed

lemma belief_after_shift:
  "belief_after I self b (Suc k) =
     bind_e (propagate I self (fst b) (snd b)) (\<lambda>b'. belief_after I self b' k)"
proof (induction k)
  case 0
  show ?case by (cases "propagate I self (fst b) (snd b)") (simp_all add: case_prod_beta)
next
  case (Suc k)
  have "belief_after I self b (Suc (Suc k))
        = bind_e (belief_after I self b (Suc k)) (\<lambda>(m, s). propagate I self m s)"
    by simp
  also have "\<dots> = bind_e (propagate I self (fst b) (snd b))
                     (\<lambda>b'. bind_e (belief_after I self b' k) (\<lambda>(m, s). propagate I self m s))"
    unfolding Suc.IH by (cases "propagate I self (fst b) (snd b)") simp_all
  finally show ?case by simp
qed

lemma reward_add:
  assumes "has_shape 1 1 R"
  shows "tf_add (Tensor 1 1 [[acc]]) R = Inr (Tensor 1 1 [[acc + entry R 0 0]])"
proof -
  have a: "has_shape 1 1 (Tensor 1 1 [[acc]])" by simp
  have "mat_add (Tensor 1 1 [[acc]]) R = Tensor 1 1 [[acc + entry R 0 0]]"
    by (simp add: mat_add_def from_entries_def entry_def)
  with tf_add_same_shape[OF a assms] show ?thesis by simp
qed

lemma predict_loop_steps:
  assumes c: "respects_contract I self k"
  shows "has_shape 1 (state_dim self) m \<Longrightarrow> has_shape (state_dim self) (state_dim self) s \<Longrightarrow>
    \<exists>m' s'. belief_after I self (m, s) n = Inr (m', s')
       \<and> has_shape 1 (state_dim self) m' \<and> has_shape (state_dim self) (state_dim self) s'
       \<and> predict_loop I self (j + int n) j m s (Tensor 1 1 [[acc]])
           = Inr (m', s', Tensor 1 1 [[acc + (\<Sum>i<n. reward_at I self (m, s) i)]])"
proof (induction n arbitrary: j m s acc)
  case 0
  then show ?case by (simp add: predict_loop.simps)
next
  case (Suc n)
  obtain M S where p: "propagate I self m s = Inr (M, S)"
    and M: "has_shape 1 (state_dim self) M"
    and S: "has_shape (state_dim self) (state_dim self) S"
    by (rule propagate_step[OF c Suc.prems])
  let ?r = "expected_reward I self (m, s)"
  from Suc.IH[OF M S, of "j + 1" "acc + ?r"]
  obtain m' s' where b: "belief_after I self (M, S) n = Inr (m', s')"
    and m': "has_shape 1 (state_dim self) m'"
    and s': "has_shape (state_dim self) (state_dim self) s'"
    and l: "predict_loop I self (j + 1 + int n) (j + 1) M S (Tensor 1 1 [[acc + ?r]])
              = Inr (m', s', Tensor 1 1 [[acc + ?r + (\<Sum>i<n. reward_at I self (M, S) i)]])"
    by blast
  have b': "belief_after I self (m, s) (Suc n) = Inr (m', s')"
    unfolding belief_after_shift by (simp add: p b)
  have r: "reward_at I self (m, s) (Suc i) = reward_at I self (M, S) i" for i
    unfolding reward_at_def belief_after_shift by (simp add: p)
  have r0: "reward_at I self (m, s) 0 = ?r" by (simp add: reward_at_def)
  have sum: "(\<Sum>i<Suc n. reward_at I self (m, s) i) = ?r + (\<Sum>i<n. reward_at I self (M, S) i)"
    unfolding sum.lessThan_Suc_shift by (simp add: r r0)
  have shapes: "shape M = shape m" "shape S = shape s"
    using has_shapeD(1,2)[OF M] has_shapeD(1,2)[OF S]
      has_shapeD(1,2)[OF Suc.prems(1)] has_shapeD(1,2)[OF Suc.prems(2)]
    by (simp_all add: shape_def)
  have idx: "j + int (Suc n) = j + 1 + int n" by simp
  have sh3: "shape (Tensor 1 1 [[x]]) = shape (Tensor 1 1 [[y]])" for x y
    by (simp add: shape_def)
  have ra: "tf_add (Tensor 1 1 [[acc]]) (fst (compute_reward I (reward self) m s))
              = Inr (Tensor 1 1 [[acc + ?r]])"
    unfolding expected_reward_def fst_conv snd_conv
    by (rule reward_add[OF contract_reward[OF c]])
  have "predict_loop I self (j + int (Suc n)) j m s (Tensor 1 1 [[acc]])
        = predict_loop I self (j + 1 + int n) (j + 1) M S (Tensor 1 1 [[acc + ?r]])"
    unfolding idx
    by (subst predict_loop.simps) (simp add: p ra shapes sh3 del: One_nat_def)
  with l b' m' s' sum show ?case by (simp add: add.assoc)
qed

lemma belief_after_invariant:
  assumes c: "respects_contract I self k"
    and m_x: "has_shape 1 (state_dim self) m_x"
    and s_x: "has_shape (state_dim self) (state_dim self) s_x"
  shows "\<exists>m s. belief_after I self (m_x, s_x) n = Inr (m, s)
           \<and> has_shape 1 (state_dim self) m \<and> has_shape (state_dim self) (state_dim self) s
           \<and> (symmetric s_x \<longrightarrow>
                (\<forall>m s. symmetric (fst (snd (predict_on_noisy_inputs I (mgpr self) m s))))
                \<longrightarrow> symmetric s)"
proof (induction n)
  case 0
  show ?case using m_x s_x by simp
next
  case (Suc n)
  then obtain m s where b: "belief_after I self (m_x, s_x) n = Inr (m, s)"
    and m: "has_shape 1 (state_dim self) m"
    and s: "has_shape (state_dim self) (state_dim self) s"
    and sym: "symmetric s_x \<Longrightarrow>
                (\<forall>m s. symmetric (fst (snd (predict_on_noisy_inputs I (mgpr self) m s))))
                \<Longrightarrow> symmetric s"
    by blast
  obtain M S where p: "propagate I self m s = Inr (M, S)"
    and M: "has_shape 1 (state_dim self) M"
    and S: "has_shape (state_dim self) (state_dim self) S"
    and S_sym: "symmetric s \<longrightarrow>
         (\<forall>m s. symmetric (fst (snd (predict_on_noisy_inputs I (mgpr self) m s))))
         \<longrightarrow> symmetric S"
    by (rule propagate_step[OF c m s])
  have "belief_after I self (m_x, s_x) (Suc n) = Inr (M, S)"
    by (simp add: b p)
  with M S S_sym sym show ?case by blast
qed

lemma predict_eq_belief_after:
  assumes c: "respects_contract I self k"
    and m_x: "has_shape 1 (state_dim self) m_x"
    and s_x: "has_shape (state_dim self) (state_dim self) s_x"
  shows "\<exists>m s. belief_after I self (m_x, s_x) n = Inr (m, s)
           \<and> predict I self m_x s_x (int n)
               = Inr (m, s, Tensor 1 1 [[\<Sum>i<n. reward_at I self (m_x, s_x) i]])"
  using predict_loop_steps[OF c m_x s_x, of n 0 0] by (auto simp: predict_def)

lemma predict_negative: "n \<le> 0 \<Longrightarrow> predict I self m_x s_x n = Inr (m_x, s_x, Tensor 1 1 [[0]])"
  by (simp add: predict_def predict_loop.simps)

lemma loop_body_builds:
  assumes c: "respects_contract I self k"
    and m_x: "has_shape 1 (state_dim self) m_x"
    and s_x: "has_shape (state_dim self) (state_dim self) s_x"
  shows "\<exists>M_x S_x rew.
           propagate I self m_x s_x = Inr (M_x, S_x)
         \<and> tf_add (Tensor 1 1 [[0]]) (fst (compute_reward I (reward self) m_x s_x)) = Inr rew
         \<and> shape M_x = shape m_x \<and> shape S_x = shape s_x
         \<and> shape rew = shape (Tensor 1 1 [[0]])"
proof -
  obtain M S where p: "propagate I self m_x s_x = Inr (M, S)"
    and M: "has_shape 1 (state_dim self) M"
    and S: "has_shape (state_dim self) (state_dim self) S"
    by (rule propagate_step[OF c m_x s_x])
  have sh: "shape M = shape m_x" "shape S = shape s_x"
    using has_shapeD(1,2)[OF M] has_shapeD(1,2)[OF S] has_shapeD(1,2)[OF m_x]
      has_shapeD(1,2)[OF s_x]
    by (simp_all add: shape_def)
  note r = reward_add[OF contract_reward[OF c], of 0 m_x s_x]
  have "shape (Tensor 1 1 [[0 + entry (fst (compute_reward I (reward self) m_x s_x)) 0 0]])
          = shape (Tensor 1 1 [[0]])"
    by (simp add: shape_def)
  with p sh r show ?thesis by blast
qed

lemma scalar_contract: "respects_contract scalar_methods scalar_pilco 1"
  by (simp add: respects_contract_def scalar_methods_def scalar_pilco_def)

lemma scalar_state_dim: "state_dim scalar_pilco = 1"
  by (simp add: scalar_pilco_def)

text \<open>
  C8. \<^verbatim>\<open>tf.while_loop\<close> builds the loop body once whatever the horizon is. For an
  initial belief of the shapes of a state belief, and collaborators that return the
  shapes of their contracts, the body builds without a shape error, and \<^verbatim>\<open>predict\<close>
  with horizon 0 returns the initial belief unchanged and the cumulative reward
  \<open>[[0]]\<close>: no iteration is run.
\<close>

theorem predict_horizon_zero:
  assumes "respects_contract I self k"
    and "has_shape 1 (state_dim self) m_x"
    and "has_shape (state_dim self) (state_dim self) s_x"
  shows "predict I self m_x s_x 0 = Inr (m_x, s_x, Tensor 1 1 [[0]])
       \<and> (\<exists>M_x S_x rew.
             propagate I self m_x s_x = Inr (M_x, S_x)
           \<and> tf_add (Tensor 1 1 [[0]]) (fst (compute_reward I (reward self) m_x s_x)) = Inr rew
           \<and> shape M_x = shape m_x \<and> shape S_x = shape s_x
           \<and> shape rew = shape (Tensor 1 1 [[0]]))"
proof
  show "predict I self m_x s_x 0 = Inr (m_x, s_x, Tensor 1 1 [[0]])"
    by (simp add: predict_def predict_loop.simps)
  show "\<exists>M_x S_x rew.
             propagate I self m_x s_x = Inr (M_x, S_x)
           \<and> tf_add (Tensor 1 1 [[0]]) (fst (compute_reward I (reward self) m_x s_x)) = Inr rew
           \<and> shape M_x = shape m_x \<and> shape S_x = shape s_x
           \<and> shape rew = shape (Tensor 1 1 [[0]])"
    by (rule loop_body_builds[OF assms])
qed

theorem predict_horizon_zero_witness:
  "respects_contract scalar_methods scalar_pilco 1
   \<and> has_shape 1 (state_dim scalar_pilco) (Tensor 1 1 [[5]])
   \<and> has_shape (state_dim scalar_pilco) (state_dim scalar_pilco) (Tensor 1 1 [[2]])
   \<and> predict scalar_methods scalar_pilco (Tensor 1 1 [[5]]) (Tensor 1 1 [[2]]) 0
       = Inr (Tensor 1 1 [[5]], Tensor 1 1 [[2]], Tensor 1 1 [[0]])
   \<and> (\<exists>M_x S_x rew.
         propagate scalar_methods scalar_pilco (Tensor 1 1 [[5]]) (Tensor 1 1 [[2]])
           = Inr (M_x, S_x)
       \<and> tf_add (Tensor 1 1 [[0]])
             (fst (compute_reward scalar_methods (reward scalar_pilco)
                     (Tensor 1 1 [[5]]) (Tensor 1 1 [[2]]))) = Inr rew
       \<and> shape M_x = shape (Tensor 1 1 [[5]]) \<and> shape S_x = shape (Tensor 1 1 [[2]])
       \<and> shape rew = shape (Tensor 1 1 [[0]]))"
proof -
  have a: "has_shape 1 (state_dim scalar_pilco) (Tensor 1 1 [[5]])"
    and b: "has_shape (state_dim scalar_pilco) (state_dim scalar_pilco) (Tensor 1 1 [[2]])"
    by (simp_all add: scalar_state_dim)
  from predict_horizon_zero[OF scalar_contract a b] scalar_contract a b
  show ?thesis by blast
qed

text \<open>
  C1. The loop counter of the rollout is a 32-bit integer. For every horizon \<open>n\<close> below
  \<open>2 ^ 31\<close>, each iteration of the loop of \<^verbatim>\<open>predict\<close> evaluates the reward on the belief
  the iteration starts from: the cumulative reward is the sum of the expected rewards of
  the beliefs after \<open>0, \<dots>, n - 1\<close> propagation steps, and the belief returned is the
  belief after \<open>n\<close> steps.
\<close>

theorem predict_sums_rewards_before_steps:
  assumes "respects_contract I self k"
    and "has_shape 1 (state_dim self) m_x"
    and "has_shape (state_dim self) (state_dim self) s_x"
    and "int n < 2 ^ 31"
  shows "(\<exists>m s. belief_after I self (m_x, s_x) n = Inr (m, s)
            \<and> predict I self m_x s_x (int n)
                = Inr (m, s, Tensor 1 1 [[\<Sum>i<n. reward_at I self (m_x, s_x) i]]))
       \<and> (\<forall>i. \<exists>b. belief_after I self (m_x, s_x) i = Inr b
                 \<and> reward_at I self (m_x, s_x) i = expected_reward I self b)"
proof
  show "\<exists>m s. belief_after I self (m_x, s_x) n = Inr (m, s)
            \<and> predict I self m_x s_x (int n)
                = Inr (m, s, Tensor 1 1 [[\<Sum>i<n. reward_at I self (m_x, s_x) i]])"
    by (rule predict_eq_belief_after[OF assms(1-3)])
  show "\<forall>i. \<exists>b. belief_after I self (m_x, s_x) i = Inr b
                 \<and> reward_at I self (m_x, s_x) i = expected_reward I self b"
  proof
    fix i
    from belief_after_invariant[OF assms(1-3), of i]
    obtain m s where "belief_after I self (m_x, s_x) i = Inr (m, s)" by blast
    then show "\<exists>b. belief_after I self (m_x, s_x) i = Inr b
                 \<and> reward_at I self (m_x, s_x) i = expected_reward I self b"
      by (simp add: reward_at_def)
  qed
qed

theorem predict_sums_rewards_before_steps_witness:
  "respects_contract scalar_methods scalar_pilco 1
   \<and> has_shape 1 (state_dim scalar_pilco) (Tensor 1 1 [[5]])
   \<and> has_shape (state_dim scalar_pilco) (state_dim scalar_pilco) (Tensor 1 1 [[2]])
   \<and> int 2 < 2 ^ 31
   \<and> (\<exists>m s. belief_after scalar_methods scalar_pilco (Tensor 1 1 [[5]], Tensor 1 1 [[2]]) 2
              = Inr (m, s)
            \<and> predict scalar_methods scalar_pilco (Tensor 1 1 [[5]]) (Tensor 1 1 [[2]]) (int 2)
                = Inr (m, s, Tensor 1 1
                    [[\<Sum>i<2. reward_at scalar_methods scalar_pilco
                               (Tensor 1 1 [[5]], Tensor 1 1 [[2]]) i]]))
   \<and> (\<forall>i. \<exists>b. belief_after scalar_methods scalar_pilco (Tensor 1 1 [[5]], Tensor 1 1 [[2]]) i
                  = Inr b
              \<and> reward_at scalar_methods scalar_pilco (Tensor 1 1 [[5]], Tensor 1 1 [[2]]) i
                  = expected_reward scalar_methods scalar_pilco b)"
proof -
  have a: "has_shape 1 (state_dim scalar_pilco) (Tensor 1 1 [[5]])"
    and b: "has_shape (state_dim scalar_pilco) (state_dim scalar_pilco) (Tensor 1 1 [[2]])"
    by (simp_all add: scalar_state_dim)
  have n: "int 2 < 2 ^ 31" by simp
  from predict_sums_rewards_before_steps[OF scalar_contract a b n] scalar_contract a b n
  show ?thesis by blast
qed

lemma scalar_propagate_any:
  "propagate scalar_methods scalar_pilco (Tensor 1 1 [[a]]) (Tensor 1 1 [[b]])
     = Inr (Tensor 1 1 [[1 + a]], Tensor 1 1 [[1 + b + b + b]])"
  by (simp add: propagate_def joint_input_def scalar_methods_def scalar_pilco_def
        scalar_policy_def scalar_action_def entry_def tf_concat1_def tf_concat0_def
        tf_matmul_def tf_matmul_t_def tf_transpose_def col_def dot_def tf_add_def bdim_def
        bidx_def from_entries_def set_shape_def numeral_2_eq_2)

lemma scalar_reward:
  "compute_reward scalar_methods r (Tensor 1 1 [[a]]) s
     = (Tensor 1 1 [[a]], Tensor 1 1 [[0]])"
  by (simp add: scalar_methods_def entry_def)

lemma tf_add_scalar:
  "tf_add (Tensor 1 1 [[a]]) (Tensor 1 1 [[b]]) = Inr (Tensor 1 1 [[a + b]])"
  by (simp add: tf_add_def bdim_def bidx_def from_entries_def entry_def)

lemma scalar_predict_1:
  "predict scalar_methods scalar_pilco (Tensor 1 1 [[5]]) (Tensor 1 1 [[2]]) 1
     = Inr (Tensor 1 1 [[6]], Tensor 1 1 [[7]], Tensor 1 1 [[5]])"
  by (simp add: predict_def predict_loop.simps scalar_propagate_any scalar_reward
        tf_add_scalar shape_def del: One_nat_def)

theorem reward_on_next_belief_counterexample:
  "predict scalar_methods scalar_pilco (Tensor 1 1 [[5]]) (Tensor 1 1 [[2]]) 1
     = Inr (Tensor 1 1 [[6]], Tensor 1 1 [[7]], Tensor 1 1 [[5]])
   \<and> belief_after scalar_methods scalar_pilco (Tensor 1 1 [[5]], Tensor 1 1 [[2]]) 1
     = Inr (Tensor 1 1 [[6]], Tensor 1 1 [[7]])
   \<and> expected_reward scalar_methods scalar_pilco (Tensor 1 1 [[6]], Tensor 1 1 [[7]]) = 6
   \<and> Tensor 1 1 [[5]] \<noteq> Tensor 1 1 [[6]]"
proof (intro conjI)
  show "belief_after scalar_methods scalar_pilco (Tensor 1 1 [[5]], Tensor 1 1 [[2]]) 1
     = Inr (Tensor 1 1 [[6]], Tensor 1 1 [[7]])"
  proof -
    have "belief_after scalar_methods scalar_pilco (Tensor 1 1 [[5]], Tensor 1 1 [[2]]) (Suc 0)
            = Inr (Tensor 1 1 [[6]], Tensor 1 1 [[7]])"
      by (simp add: scalar_propagate_any del: One_nat_def)
    then show ?thesis by simp
  qed
  show "expected_reward scalar_methods scalar_pilco (Tensor 1 1 [[6]], Tensor 1 1 [[7]]) = 6"
    by (simp add: expected_reward_def scalar_reward del: One_nat_def) (simp add: entry_def)
  show "Tensor 1 1 [[5]] \<noteq> Tensor 1 1 [[6]]" by simp
qed (rule scalar_predict_1)




section \<open>Properties of the constructor\<close>

lemma np_diag_scaled_ones:
  "np_diag (np_vec_scale (np_ones d) a) = np_scale a (identity_matrix d)"
proof (rule tensor_eqI[of d d])
  show "has_shape d d (np_diag (np_vec_scale (np_ones d) a))"
    by (rule has_shapeI) (simp_all add: np_diag_def np_vec_scale_def np_ones_def)
  show "has_shape d d (np_scale a (identity_matrix d))"
    by (rule has_shapeI) (simp_all add: np_scale_def identity_matrix_def from_entries_def)
next
  fix i j assume "i < d" "j < d"
  then show "entry (np_diag (np_vec_scale (np_ones d) a)) i j
               = entry (np_scale a (identity_matrix d)) i j"
    by (simp add: entry_def np_diag_def np_vec_scale_def np_ones_def np_scale_def
          identity_matrix_def from_entries_def nth_list_update)
qed

lemma np_slice_first_row:
  "np_slice X 0 1 0 d =
     Tensor (min 1 (nrows X)) (min d (ncols X)) (map (take d) (take 1 (rows X)))"
  by (simp add: np_slice_def)

lemma pilco_init_fields:
  assumes "pilco_init F X Y nip h c0 r0 mi si = Inr p"
  shows "state_dim p = ncols Y" and "horizon p = h" and "optimizer p = None"
    and "control_dim p = int (ncols X) - int (ncols Y)"
    and "m_init p = (if mi = None \<or> si = None then np_slice X 0 1 0 (ncols Y) else the mi)"
    and "S_init p = (if mi = None \<or> si = None
                     then np_diag (np_vec_scale (np_ones (ncols Y)) 0.1) else the si)"
  using assms
  by (auto simp: pilco_init_def bind_e_def Let_def split: sum.splits option.splits if_splits)

text \<open>
  C10. When the caller leaves out \<^verbatim>\<open>m_init\<close> or \<^verbatim>\<open>S_init\<close>, the constructor takes as
  initial mean the first row of the training inputs \<open>X\<close> cut to its first
  \<open>state_dim\<close> columns, and as initial covariance 0.1 times the identity matrix of
  size \<open>state_dim\<close>. When both are given they are stored unchanged.
\<close>

theorem default_initial_belief:
  assumes "pilco_init F X Y nip h c0 r0 mi si = Inr p"
  shows "m_init p =
           (if mi = None \<or> si = None
            then Tensor (min 1 (nrows X)) (min (state_dim p) (ncols X))
                   (map (take (state_dim p)) (take 1 (rows X)))
            else the mi)
       \<and> S_init p =
           (if mi = None \<or> si = None then np_scale 0.1 (identity_matrix (state_dim p))
            else the si)
       \<and> state_dim p = ncols Y"
  using pilco_init_fields(1,5,6)[OF assms]
  by (simp add: np_slice_first_row np_diag_scaled_ones del: One_nat_def)

lemma scalar_init:
  "pilco_init scalar_factories (Tensor 2 2 [[5, 1], [6, 1]]) (Tensor 2 1 [[1], [1]])
      None h None None mi si
     = Inr \<lparr>mgpr = (), state_dim = 1, control_dim = 1, horizon = h,
            controller = \<lparr>models = [], policy_rest = ()\<rparr>, reward = (),
            m_init = (case (mi, si) of (Some m, Some S) \<Rightarrow> m | _ \<Rightarrow> Tensor 1 1 [[5]]),
            S_init = (case (mi, si) of (Some m, Some S) \<Rightarrow> S | _ \<Rightarrow> Tensor 1 1 [[1 / 10]]),
            optimizer = None\<rparr>"
  by (simp add: pilco_init_def scalar_factories_def np_slice_def np_diag_def np_vec_scale_def
        np_ones_def split: option.splits)

theorem default_initial_belief_witness:
  "(\<exists>p. pilco_init scalar_factories (Tensor 2 2 [[5, 1], [6, 1]]) (Tensor 2 1 [[1], [1]])
          None 2 None None None None = Inr p
       \<and> m_init p = Tensor 1 1 [[5]]
       \<and> S_init p = np_scale 0.1 (identity_matrix 1)
       \<and> state_dim p = 1)
   \<and> (\<exists>p. pilco_init scalar_factories (Tensor 2 2 [[5, 1], [6, 1]]) (Tensor 2 1 [[1], [1]])
          None 2 None None (Some (Tensor 1 1 [[7]])) (Some (Tensor 1 1 [[3]])) = Inr p
       \<and> m_init p = Tensor 1 1 [[7]]
       \<and> S_init p = Tensor 1 1 [[3]])"
proof
  let ?X = "Tensor 2 2 [[5, 1], [6, 1]]"
  note a = scalar_init[of 2 None None]
  from default_initial_belief[OF a]
  show "\<exists>p. pilco_init scalar_factories ?X (Tensor 2 1 [[1], [1]])
          None 2 None None None None = Inr p
       \<and> m_init p = Tensor 1 1 [[5]]
       \<and> S_init p = np_scale 0.1 (identity_matrix 1)
       \<and> state_dim p = 1"
    unfolding a by simp
  note b = scalar_init[of 2 "Some (Tensor 1 1 [[7]])" "Some (Tensor 1 1 [[3]])"]
  from default_initial_belief[OF b]
  show "\<exists>p. pilco_init scalar_factories ?X (Tensor 2 1 [[1], [1]])
          None 2 None None (Some (Tensor 1 1 [[7]])) (Some (Tensor 1 1 [[3]])) = Inr p
       \<and> m_init p = Tensor 1 1 [[7]]
       \<and> S_init p = Tensor 1 1 [[3]]"
    unfolding b by simp
qed

theorem horizon_accepted_counterexample:
  "pilco_init scalar_factories (Tensor 2 2 [[5, 1], [6, 1]]) (Tensor 2 1 [[1], [1]])
      None 0 None None None None
     = Inr \<lparr>mgpr = (), state_dim = 1, control_dim = 1, horizon = 0,
            controller = \<lparr>models = [], policy_rest = ()\<rparr>, reward = (),
            m_init = Tensor 1 1 [[5]], S_init = Tensor 1 1 [[1 / 10]], optimizer = None\<rparr>
   \<and> pilco_init scalar_factories (Tensor 2 2 [[5, 1], [6, 1]]) (Tensor 2 1 [[1], [1]])
      None (- 3) None None None None
     = Inr \<lparr>mgpr = (), state_dim = 1, control_dim = 1, horizon = - 3,
            controller = \<lparr>models = [], policy_rest = ()\<rparr>, reward = (),
            m_init = Tensor 1 1 [[5]], S_init = Tensor 1 1 [[1 / 10]], optimizer = None\<rparr>"
  by (simp add: scalar_init del: One_nat_def)

text \<open>
  C9. The constructor does not examine the horizon. For horizons in the range of a 32-bit
  integer and the other arguments fixed, it fails for one horizon exactly when it fails
  for every other, and an object it builds stores the horizon as given, zero and negative
  values included. A rollout whose horizon is zero or negative (and not below
  \<open>- 2 ^ 31\<close>), on a belief of the shapes of a state belief and with collaborators that
  return the shapes of their contracts, runs no iteration: \<^verbatim>\<open>predict\<close> returns the
  initial belief and the reward \<open>[[0]]\<close>.
\<close>

theorem horizon_not_validated:
  assumes "- (2 ^ 31) \<le> n" and "n \<le> 0"
    and "- (2 ^ 31) \<le> h" and "h < 2 ^ 31"
    and "- (2 ^ 31) \<le> h'" and "h' < 2 ^ 31"
    and "respects_contract I self k"
    and "has_shape 1 (state_dim self) m_x"
    and "has_shape (state_dim self) (state_dim self) s_x"
  shows "pilco_init F X Y nip h c0 r0 mi si
           = map_sum id (\<lambda>p. p\<lparr>horizon := h\<rparr>) (pilco_init F X Y nip h' c0 r0 mi si)
       \<and> predict I self m_x s_x n = Inr (m_x, s_x, Tensor 1 1 [[0]])"
proof
  show "pilco_init F X Y nip h c0 r0 mi si
           = map_sum id (\<lambda>p. p\<lparr>horizon := h\<rparr>) (pilco_init F X Y nip h' c0 r0 mi si)"
    by (simp add: pilco_init_def bind_e_def Let_def split: sum.splits option.splits prod.splits)
  show "predict I self m_x s_x n = Inr (m_x, s_x, Tensor 1 1 [[0]])"
    using assms(2) by (rule predict_negative)
qed

theorem horizon_not_validated_witness:
  "- (2 ^ 31) \<le> (- 3 :: int) \<and> (- 3 :: int) \<le> 0
   \<and> (- 3 :: int) < 2 ^ 31
   \<and> - (2 ^ 31) \<le> (30 :: int) \<and> (30 :: int) < 2 ^ 31
   \<and> respects_contract scalar_methods scalar_pilco 1
   \<and> has_shape 1 (state_dim scalar_pilco) (Tensor 1 1 [[5]])
   \<and> has_shape (state_dim scalar_pilco) (state_dim scalar_pilco) (Tensor 1 1 [[2]])
   \<and> pilco_init scalar_factories (Tensor 2 2 [[5, 1], [6, 1]]) (Tensor 2 1 [[1], [1]])
        None (- 3) None None None None
       = map_sum id (\<lambda>p. p\<lparr>horizon := - 3\<rparr>)
           (pilco_init scalar_factories (Tensor 2 2 [[5, 1], [6, 1]]) (Tensor 2 1 [[1], [1]])
              None 30 None None None None)
   \<and> predict scalar_methods scalar_pilco (Tensor 1 1 [[5]]) (Tensor 1 1 [[2]]) (- 3)
       = Inr (Tensor 1 1 [[5]], Tensor 1 1 [[2]], Tensor 1 1 [[0]])"
proof -
  have n1: "- (2 ^ 31) \<le> (- 3 :: int)" and n2: "(- 3 :: int) \<le> 0"
    and n3: "(- 3 :: int) < 2 ^ 31"
    and h1: "- (2 ^ 31) \<le> (30 :: int)" and h2: "(30 :: int) < 2 ^ 31"
    by simp_all
  have a: "has_shape 1 (state_dim scalar_pilco) (Tensor 1 1 [[5]])"
    and b: "has_shape (state_dim scalar_pilco) (state_dim scalar_pilco) (Tensor 1 1 [[2]])"
    by (simp_all add: scalar_state_dim)
  from horizon_not_validated[OF n1 n2 n1 n3 h1 h2 scalar_contract a b]
    n1 n2 n3 h1 h2 scalar_contract a b
  show ?thesis by blast
qed

section \<open>Properties of restart_controller\<close>

lemma bind_e_assoc:
  "bind_e (bind_e x f) k = bind_e x (\<lambda>v. bind_e (f v) k)"
  by (cases x) simp_all

lemma perturb_model_strategy:
  "perturb_model select centre m g = apply_strategy (strategy_for select) centre m g"
  by (simp add: perturb_model_def strategy_for_def resample_model_def resample_def
        bind_e_assoc case_prod_beta)

lemma perturb_models_strategy:
  "perturb_models select centre ms g = apply_to_every (strategy_for select) centre ms g"
  by (induction ms arbitrary: g)
     (simp_all add: perturb_model_strategy bind_e_def split: sum.splits prod.splits)

text \<open>
  C6. A restart trial draws one uniform number and compares it with 0.33 and 0.67 by
  strict less-than; the comparison selects exactly one of the three strategies (a draw
  of exactly 0.33 selects the second, a draw of exactly 0.67 the third), and the loop
  over the sub-models of the policy applies that one strategy to every sub-model.
\<close>

theorem one_strategy_per_trial:
  "perturb self g =
     bind_e (apply_to_every (strategy_for (fst (np_random_rand g))) (m_init self)
               (models (controller self)) (snd (np_random_rand g)))
       (\<lambda>(ms, g2). Inr (self\<lparr>controller := (controller self)\<lparr>models := ms\<rparr>\<rparr>, g2))
   \<and> (strategy_for draw = Reinitialise) = (draw < 0.33)
   \<and> (strategy_for draw = ReinitialiseNearInitial) = (0.33 \<le> draw \<and> draw < 0.67)
   \<and> (strategy_for draw = PerturbInPlace) = (0.67 \<le> draw)
   \<and> strategy_for 0.33 = ReinitialiseNearInitial
   \<and> strategy_for 0.67 = PerturbInPlace"
  by (simp add: perturb_def perturb_models_strategy strategy_for_def split: prod.splits)

lemma tf_add_result_shape:
  assumes "tf_add A B = Inr C"
  shows "has_shape (nrows C) (ncols C) C"
  using assms by (auto simp: tf_add_def split: option.splits)

lemma predict_loop_reward_shape:
  "has_shape 1 1 rew \<Longrightarrow> predict_loop I self n j m s rew = Inr (m', s', r')
     \<Longrightarrow> has_shape 1 1 r'"
proof (induction I self n j m s rew rule: predict_loop.induct)
  case (1 I self n j m_x s_x rew)
  show ?case
  proof (cases "j < n")
    case False
    with "1.prems" show ?thesis by (simp add: predict_loop.simps)
  next
    case True
    from "1.prems"(2) True obtain M S rew'
      where p: "propagate I self m_x s_x = Inr (M, S)"
        and a: "tf_add rew (fst (compute_reward I (reward self) m_x s_x)) = Inr rew'"
        and sh: "shape M = shape m_x \<and> shape S = shape s_x \<and> shape rew' = shape rew"
        and l: "predict_loop I self n (j + 1) M S rew' = Inr (m', s', r')"
      by (subst (asm) predict_loop.simps) (auto split: sum.splits if_splits)
    from sh has_shapeD(1,2)[OF "1.prems"(1)] have "nrows rew' = 1" "ncols rew' = 1"
      by (simp_all add: shape_def)
    with tf_add_result_shape[OF a] have "has_shape 1 1 rew'" by simp
    from "1.IH"[OF True p refl a sh this l] show ?thesis .
  qed
qed

lemma compute_return_shape:
  assumes "compute_return I self = Inr r" shows "has_shape 1 1 r"
proof -
  from assms obtain m s
    where "predict I self (m_init self) (S_init self) (horizon self) = Inr (m, s, r)"
    by (auto simp: compute_return_def bind_e_def split: sum.splits)
  then show ?thesis
    unfolding predict_def
    by (rule predict_loop_reward_shape[rotated]) simp
qed

lemma array_greater_scalar:
  assumes "has_shape 1 1 a" "has_shape 1 1 b"
  shows "array_greater a b = Inr (entry a 0 0 > entry b 0 0)"
  using has_shapeD(1,2)[OF assms(1)] has_shapeD(1,2)[OF assms(2)]
  by (simp add: array_greater_def bdim_def)

lemma read_values_assign [simp]: "read_values (assign self v) = v"
  by (cases v) (simp add: read_values_def assign_def)

lemma perturb_changes_controller:
  assumes "perturb self g = Inr (self1, g1)"
  shows "\<exists>c. self1 = self\<lparr>controller := c\<rparr>"
  using assms
  by (auto simp: perturb_def bind_e_def split: prod.splits sum.splits)

lemma assign_restores:
  "assign (assign (self\<lparr>controller := c\<rparr>) v) (read_values self) = self"
  by (cases v) (simp add: assign_def read_values_def)

lemma restart_trial_eq:
  assumes v: "values = read_values self" and cr: "compute_return I self = Inr old_reward"
    and p: "perturb self g = Inr (self1, g1)"
    and opt: "optimizer self = Some opt"
    and r: "compute_return I (assign self1 (minimize self1)) = Inr rew"
  shows "restart_trial I minimize (self, values, old_reward, g) =
           (if entry old_reward 0 0 > entry rew 0 0
            then Inr (self, values, old_reward, g1)
            else Inr (assign self1 (minimize self1),
                      read_values (assign self1 (minimize self1)), rew, g1))"
proof -
  from perturb_changes_controller[OF p] obtain c where c: "self1 = self\<lparr>controller := c\<rparr>"
    by blast
  have opt1: "optimizer self1 = Some opt" by (simp add: c opt)
  have restored: "assign (assign self1 (minimize self1)) values = self"
    unfolding v c by (rule assign_restores)
  note g = array_greater_scalar[OF compute_return_shape[OF cr] compute_return_shape[OF r]]
  show ?thesis
    by (simp add: restart_trial_def p opt1 r g restored cr Let_def)
qed

lemma restart_trial_invariant:
  assumes "trial_invariant I st" and "restart_trial I minimize st = Inr st'"
  shows "trial_invariant I st'"
proof -
  obtain self vals old_reward g where st: "st = (self, vals, old_reward, g)"
    by (cases st) auto
  from assms(1) have v: "vals = read_values self"
    and cr: "compute_return I self = Inr old_reward"
    by (simp_all add: trial_invariant_def st)
  from assms(2) obtain self1 g1 where p: "perturb self g = Inr (self1, g1)"
    by (auto simp: restart_trial_def st bind_e_def split: sum.splits)
  from assms(2) p obtain opt where opt1: "optimizer self1 = Some opt"
    by (auto simp: restart_trial_def st split: option.splits)
  from perturb_changes_controller[OF p] opt1 have opt: "optimizer self = Some opt"
    by auto
  from assms(2) p opt1 obtain rew
    where r: "compute_return I (assign self1 (minimize self1)) = Inr rew"
    by (auto simp: restart_trial_def st bind_e_def Let_def split: sum.splits)
  from assms(2) restart_trial_eq[where minimize = minimize, OF v cr p opt r] show ?thesis
    by (auto simp: st trial_invariant_def v cr r split: if_splits)
qed

lemma restart_loop_invariant:
  "trial_invariant I st \<Longrightarrow> restart_loop I minimize k st = Inr st'
     \<Longrightarrow> trial_invariant I st'"
proof (induction k arbitrary: st)
  case 0
  then show ?case by simp
next
  case (Suc k)
  from Suc.prems(2) obtain st1 where t: "restart_trial I minimize st = Inr st1"
    and l: "restart_loop I minimize k st1 = Inr st'"
    by (auto simp: bind_e_def split: sum.splits)
  from Suc.IH[OF restart_trial_invariant[OF Suc.prems(1) t] l] show ?case .
qed

lemma restart_controller_invariant:
  assumes "restart_controller I minimize self0 restarts g0 = Inr st"
  shows "trial_invariant I st"
proof -
  from assms obtain r0 where r0: "compute_return I self0 = Inr r0"
    and l: "restart_loop I minimize (nat restarts) (self0, read_values self0, r0, g0) = Inr st"
    by (auto simp: restart_controller_def bind_e_def Let_def split: sum.splits)
  have "trial_invariant I (self0, read_values self0, r0, g0)"
    by (simp add: trial_invariant_def r0)
  from restart_loop_invariant[OF this l] show ?thesis .
qed

text \<open>
  C4. Take any trial of \<^verbatim>\<open>restart_controller\<close>: the state \<open>(self, values, old_reward, g)\<close>
  it starts in is the state after some number \<open>k\<close> of trials. The snapshot \<open>values\<close>
  holds the parameters the trial starts with. With \<open>rew\<close> the reward computed after
  perturbation and optimisation, the trial is rejected exactly when
  \<open>old_reward > rew\<close>: then the model is again the one the trial started with, and the
  snapshot and \<open>old_reward\<close> are unchanged. Otherwise, a tie included, the optimised
  parameters are kept, they become the snapshot, and \<open>old_reward\<close> becomes \<open>rew\<close>.
\<close>

theorem restart_trial_accept_or_restore:
  assumes "restart_controller I minimize self0 (int k) g0 = Inr (self, values, old_reward, g)"
    and "optimizer self = Some opt"
    and "perturb self g = Inr (self1, g1)"
    and "compute_return I (assign self1 (minimize self1)) = Inr rew"
  shows "values = read_values self
       \<and> restart_trial I minimize (self, values, old_reward, g) =
           (if entry old_reward 0 0 > entry rew 0 0
            then Inr (self, values, old_reward, g1)
            else Inr (assign self1 (minimize self1),
                      read_values (assign self1 (minimize self1)), rew, g1))"
proof -
  from restart_controller_invariant[OF assms(1)]
  have v: "values = read_values self" and cr: "compute_return I self = Inr old_reward"
    by (simp_all add: trial_invariant_def)
  from v restart_trial_eq[where minimize = minimize, OF v cr assms(3,2,4)]
  show ?thesis by blast
qed

lemma scalar_propagate_controller:
  "propagate scalar_methods (scalar_pilco\<lparr>controller := c\<rparr>) (Tensor 1 1 [[a]]) (Tensor 1 1 [[b]])
     = Inr (Tensor 1 1 [[scalar_action c + a]], Tensor 1 1 [[1 + b + b + b]])"
  by (simp add: propagate_def joint_input_def scalar_methods_def scalar_pilco_def
        entry_def tf_concat1_def tf_concat0_def
        tf_matmul_def tf_matmul_t_def tf_transpose_def col_def dot_def tf_add_def bdim_def
        bidx_def from_entries_def set_shape_def numeral_2_eq_2)

lemma scalar_horizon: "horizon (scalar_pilco\<lparr>controller := c\<rparr>) = 2"
  and scalar_m_init: "m_init (scalar_pilco\<lparr>controller := c\<rparr>) = Tensor 1 1 [[5]]"
  and scalar_S_init: "S_init (scalar_pilco\<lparr>controller := c\<rparr>) = Tensor 1 1 [[2]]"
  by (simp_all add: scalar_pilco_def)

lemma scalar_return_controller:
  "compute_return scalar_methods (scalar_pilco\<lparr>controller := c\<rparr>)
     = Inr (Tensor 1 1 [[10 + scalar_action c]])"
  unfolding compute_return_def predict_def scalar_horizon scalar_m_init scalar_S_init
  by (simp add: predict_loop.simps scalar_propagate_controller scalar_reward
        tf_add_scalar shape_def del: One_nat_def)

lemma scalar_pilco_controller: "scalar_pilco = scalar_pilco\<lparr>controller := scalar_policy 1\<rparr>"
  by (simp add: scalar_pilco_def)

lemma scalar_return: "compute_return scalar_methods scalar_pilco = Inr (Tensor 1 1 [[11]])"
  by (subst scalar_pilco_controller)
     (simp add: scalar_return_controller scalar_action_def scalar_policy_def entry_def
        del: One_nat_def)

lemma scalar_restart_start:
  "restart_controller scalar_methods scalar_minimize scalar_pilco (int 0) g
     = Inr (scalar_pilco, read_values scalar_pilco, Tensor 1 1 [[11]], g)"
  by (simp add: restart_controller_def scalar_return del: One_nat_def)

lemma scalar_perturb_near_initial:
  "perturb scalar_pilco (scalar_rng (1 / 2) 1) = Inr (scalar_near_initial, \<lambda>i. 1)"
  by (simp add: perturb_def np_random_rand_def scalar_rng_def scalar_pilco_def
        scalar_policy_def perturb_model_def np_random_normal_def shape_def from_entries_def
        np_scale_def np_add_scalar_def param_assign_def tf_add_def bdim_def bidx_def entry_def
        scalar_near_initial_def)

lemma scalar_perturb_in_place:
  "perturb scalar_pilco (scalar_rng (9 / 10) (- 20)) = Inr (scalar_in_place, \<lambda>i. - 20)"
  by (simp add: perturb_def np_random_rand_def scalar_rng_def scalar_pilco_def
        scalar_policy_def perturb_model_def np_random_normal_def shape_def from_entries_def
        np_scale_def np_add_scalar_def param_assign_def tf_add_def bdim_def bidx_def entry_def
        scalar_in_place_def)

lemma scalar_minimize_id: "assign self (scalar_minimize self) = self"
  by (simp add: assign_def scalar_minimize_def read_values_def)

lemma scalar_return_near_initial:
  "compute_return scalar_methods scalar_near_initial = Inr (Tensor 1 1 [[151 / 10]])"
  unfolding scalar_near_initial_def
  by (simp add: scalar_return_controller scalar_action_def entry_def del: One_nat_def)

lemma scalar_return_in_place:
  "compute_return scalar_methods scalar_in_place = Inr (Tensor 1 1 [[9]])"
  unfolding scalar_in_place_def
  by (simp add: scalar_return_controller scalar_action_def entry_def del: One_nat_def)

lemma scalar_optimizer: "optimizer scalar_pilco = Some ScipyOptimizer"
  by (simp add: scalar_pilco_def)

theorem restart_trial_accept_or_restore_witness:
  "restart_controller scalar_methods scalar_minimize scalar_pilco (int 0)
       (scalar_rng (9 / 10) (- 20))
     = Inr (scalar_pilco, read_values scalar_pilco, Tensor 1 1 [[11]],
            scalar_rng (9 / 10) (- 20))
   \<and> optimizer scalar_pilco = Some ScipyOptimizer
   \<and> perturb scalar_pilco (scalar_rng (9 / 10) (- 20)) = Inr (scalar_in_place, \<lambda>i. - 20)
   \<and> compute_return scalar_methods (assign scalar_in_place (scalar_minimize scalar_in_place))
       = Inr (Tensor 1 1 [[9]])
   \<and> restart_trial scalar_methods scalar_minimize
        (scalar_pilco, read_values scalar_pilco, Tensor 1 1 [[11]], scalar_rng (9 / 10) (- 20))
       = Inr (scalar_pilco, read_values scalar_pilco, Tensor 1 1 [[11]], \<lambda>i. - 20)
   \<and> restart_controller scalar_methods scalar_minimize scalar_pilco (int 0)
       (scalar_rng (1 / 2) 1)
     = Inr (scalar_pilco, read_values scalar_pilco, Tensor 1 1 [[11]], scalar_rng (1 / 2) 1)
   \<and> perturb scalar_pilco (scalar_rng (1 / 2) 1) = Inr (scalar_near_initial, \<lambda>i. 1)
   \<and> compute_return scalar_methods
         (assign scalar_near_initial (scalar_minimize scalar_near_initial))
       = Inr (Tensor 1 1 [[151 / 10]])
   \<and> restart_trial scalar_methods scalar_minimize
        (scalar_pilco, read_values scalar_pilco, Tensor 1 1 [[11]], scalar_rng (1 / 2) 1)
       = Inr (scalar_near_initial, read_values scalar_near_initial, Tensor 1 1 [[151 / 10]],
              \<lambda>i. 1)"
proof -
  have r1: "compute_return scalar_methods
              (assign scalar_in_place (scalar_minimize scalar_in_place))
            = Inr (Tensor 1 1 [[9]])"
    unfolding scalar_minimize_id by (rule scalar_return_in_place)
  have r2: "compute_return scalar_methods
              (assign scalar_near_initial (scalar_minimize scalar_near_initial))
            = Inr (Tensor 1 1 [[151 / 10]])"
    unfolding scalar_minimize_id by (rule scalar_return_near_initial)
  note t1 = restart_trial_accept_or_restore[where minimize = scalar_minimize,
      OF scalar_restart_start scalar_optimizer scalar_perturb_in_place r1]
  note t2 = restart_trial_accept_or_restore[where minimize = scalar_minimize,
      OF scalar_restart_start scalar_optimizer scalar_perturb_near_initial r2]
  have e1: "restart_trial scalar_methods scalar_minimize
        (scalar_pilco, read_values scalar_pilco, Tensor 1 1 [[11]], scalar_rng (9 / 10) (- 20))
       = Inr (scalar_pilco, read_values scalar_pilco, Tensor 1 1 [[11]], \<lambda>i. - 20)"
    using t1 by (simp add: entry_def)
  have e2: "restart_trial scalar_methods scalar_minimize
        (scalar_pilco, read_values scalar_pilco, Tensor 1 1 [[11]], scalar_rng (1 / 2) 1)
       = Inr (scalar_near_initial, read_values scalar_near_initial, Tensor 1 1 [[151 / 10]],
              \<lambda>i. 1)"
    using t2 by (simp add: entry_def scalar_minimize_id)
  show ?thesis
    by (intro conjI scalar_restart_start scalar_optimizer scalar_perturb_in_place
          scalar_perturb_near_initial r1 r2 e1 e2)
qed

end
